theory Spec2Isabelle
  imports Main "HOL-Library.Word"
begin

section \<open>Data model of \<^verbatim>\<open>src/protocols/types/DMABuffer.cpp\<close>\<close>

text \<open>
  The buffer attributes (\<^verbatim>\<open>Aquamarine::SDMABUFAttrs\<close>, as this file reads them):
  \<^verbatim>\<open>planes\<close> is a C \<^verbatim>\<open>int\<close>; \<^verbatim>\<open>fds\<close>, \<^verbatim>\<open>offsets\<close> and \<^verbatim>\<open>strides\<close> are
  \<^verbatim>\<open>std::array\<close>s of four entries (lists here, a closed descriptor slot is \<open>-1\<close>);
  \<^verbatim>\<open>format\<close> is a 32-bit fourcc code, \<^verbatim>\<open>modifier\<close> a 64-bit layout tag. The pixel
  dimensions are kept as the integral, non-negative values the casts of the source read
  from \<^verbatim>\<open>size.x\<close> and \<^verbatim>\<open>size.y\<close>.
\<close>

record SDMABUFAttrs =
  size_x :: nat
  size_y :: nat
  format :: "32 word"
  modifier :: "64 word"
  planes :: int
  offsets :: "32 word list"
  strides :: "32 word list"
  fds :: "int list"
  crossGPU :: bool
  sourceDevice :: int

definition DRM_FORMAT_MOD_INVALID :: "64 word" where
  "DRM_FORMAT_MOD_INVALID = 0x00ffffffffffffff"

definition DRM_FORMAT_ARGB8888 :: "32 word" where "DRM_FORMAT_ARGB8888 = 0x34325241"
definition DRM_FORMAT_XRGB8888 :: "32 word" where "DRM_FORMAT_XRGB8888 = 0x34325258"
definition DRM_FORMAT_ABGR8888 :: "32 word" where "DRM_FORMAT_ABGR8888 = 0x34324241"
definition DRM_FORMAT_XBGR8888 :: "32 word" where "DRM_FORMAT_XBGR8888 = 0x34324258"
definition DRM_FORMAT_RGB888 :: "32 word" where "DRM_FORMAT_RGB888 = 0x34324752"
definition DRM_FORMAT_BGR888 :: "32 word" where "DRM_FORMAT_BGR888 = 0x34324742"

datatype gl_format = GL_RGBA | GL_RGB | GL_BGRA_EXT
datatype gl_target = GL_TEXTURE_NONE | GL_TEXTURE_2D
datatype gl_param =
  GL_TEXTURE_MIN_FILTER | GL_TEXTURE_MAG_FILTER | GL_TEXTURE_WRAP_S | GL_TEXTURE_WRAP_T
datatype eTextureType = TEXTURE_INVALID | TEXTURE_RGBA | TEXTURE_RGBX | TEXTURE_EXTERNAL

text \<open>The texture object: identity (0 is no texture), size, target, the synchronous flag,
  the pixel-type classification and the EGL image it owns, when it wraps one.\<close>

record CTexture =
  m_texID :: "32 word"
  m_size :: "nat \<times> nat"
  m_target :: gl_target
  m_isSynchronous :: bool
  m_type :: eTextureType
  m_eglImage :: "nat option"

text \<open>The buffer object. \<^verbatim>\<open>m_resource\<close> is kept as "a protocol resource is attached",
  \<^verbatim>\<open>m_listeners.resourceDestroy\<close> as "the destroy listener is registered".\<close>

record CDMABuffer =
  m_attrs :: SDMABUFAttrs
  m_texture :: "CTexture option"
  m_opaque :: bool
  m_success :: bool
  m_resource :: bool
  resourceDestroy :: bool
  buf_size :: "nat \<times> nat"

datatype eBufferCapability = BUFFER_CAPABILITY_NONE | BUFFER_CAPABILITY_DATAPTR
datatype eBufferType = BUFFER_TYPE_DMABUF | BUFFER_TYPE_SHM | BUFFER_TYPE_MISC

section \<open>Effects\<close>

text \<open>
  Every call that leaves the object (a system call, a GL or DRM call, a log line, a call
  into the renderer) is recorded, in program order, as an event. A function of the source
  that has effects returns the events it performed together with its result. The call of
  \<^verbatim>\<open>createCrossGPUTexture\<close> is recorded as well, so that a trace shows which import
  strategy was attempted. A log line is recorded with its level and its text, without the
  values formatted into it.
\<close>

datatype loglevel = LOG | WARN | ERR

text \<open>An \<^verbatim>\<open>ioctl\<close> request of this file, and what the kernel answers: the return value,
  \<^verbatim>\<open>errno\<close>, and the descriptor it writes into the request structure
  (\<^verbatim>\<open>request.fd\<close>, \<^verbatim>\<open>data.fence\<close>).\<close>

datatype ioctl_req =
    DMA_BUF_IOCTL_EXPORT_SYNC_FILE int
  | SYNC_IOC_MERGE int int string

record ioctl_ret =
  rv :: int
  errno :: int
  out_fd :: int

definition EINTR :: int where "EINTR = 4"
definition EAGAIN :: int where "EAGAIN = 11"

text \<open>A fallible call is recorded with its arguments and with what it returned.\<close>

datatype event =
    MakeEGLCurrent
  | ListenDestroy
  | CreateResource
  | DebugLog loglevel string
  | Call_createCrossGPUTexture
  | CreateEGLImage SDMABUFAttrs "nat option"
  | MakeTexture nat
  | Mmap "64 word" int "64 word" "nat option"
  | Munmap nat "64 word"
  | DrmPrimeFDToHandle int int "32 word option"
  | DrmIoctlMapDumb int "32 word" "64 word option"
  | DrmCloseBufferHandle int "32 word"
  | GlGenTextures "32 word"
  | GlBindTexture gl_target "32 word"
  | GlTexParameteri gl_target gl_param
  | GlPixelStorei "32 word"
  | GlTexImage2D nat nat gl_format nat
  | GlGetError "32 word"
  | GlDeleteTextures "32 word"
  | CloseFd int
  | ListenerReset
  | SendRelease
  | IsReadable int bool
  | Ioctl ioctl_req ioctl_ret

text \<open>
  What the code cannot decide by itself is read from the environment: the platform macro,
  the three process variables (\<^verbatim>\<open>getenv(...) != NULL\<close>), the compositor's secondary
  render node, and the answers of the renderer, of GL, of DRM and of the kernel. The
  calls that may be made twice (\<^verbatim>\<open>createEGLImage\<close>, \<^verbatim>\<open>mmap\<close>) take the number of
  the call, so that the second answer is free to differ from the first; \<^verbatim>\<open>ioctl\<close>
  takes the number of the system call. \<^verbatim>\<open>newTexture\<close> is the constructor
  \<^verbatim>\<open>CTexture(attrs, eglImage)\<close> and \<^verbatim>\<open>isFormatOpaque\<close> is
  \<^verbatim>\<open>NFormatUtils::isFormatOpaque\<close>; both live outside this file and are parameters.
\<close>

record environment =
  is_linux :: bool
  HYPRLAND_DMABUF_ENABLE_CPU_FALLBACK :: bool
  HYPRLAND_DMABUF_DISABLE_CPU_FALLBACK :: bool
  HYPRLAND_DMABUF_LOG :: bool
  secondaryDrmRenderNode_available :: bool
  createEGLImage :: "nat \<Rightarrow> SDMABUFAttrs \<Rightarrow> nat option"
  newTexture :: "SDMABUFAttrs \<Rightarrow> nat \<Rightarrow> CTexture"
  isFormatOpaque :: "32 word \<Rightarrow> bool"
  mmap :: "nat \<Rightarrow> 64 word \<Rightarrow> int \<Rightarrow> 64 word \<Rightarrow> nat option"
  drmPrimeFDToHandle :: "int \<Rightarrow> int \<Rightarrow> 32 word option"
  drmIoctl_MODE_MAP_DUMB :: "int \<Rightarrow> 32 word \<Rightarrow> 64 word option"
  glGenTextures :: "32 word"
  glGetError :: "32 word"
  renderer_present :: bool
  isIntel :: bool
  isReadable :: "nat \<Rightarrow> int \<Rightarrow> bool"
  ioctl :: "nat \<Rightarrow> ioctl_req \<Rightarrow> ioctl_ret"

section \<open>The query interface\<close>

definition caps :: "CDMABuffer \<Rightarrow> eBufferCapability" where
  "caps b = BUFFER_CAPABILITY_DATAPTR"

definition type_of_buffer :: "CDMABuffer \<Rightarrow> eBufferType" where
  "type_of_buffer b = BUFFER_TYPE_DMABUF"

definition update :: "CDMABuffer \<Rightarrow> 'damage \<Rightarrow> event list \<times> CDMABuffer" where
  "update b damage = ([], b)"

definition isSynchronous :: "CDMABuffer \<Rightarrow> bool" where
  "isSynchronous b = False"

definition dmabuf :: "CDMABuffer \<Rightarrow> SDMABUFAttrs" where
  "dmabuf b = m_attrs b"

text \<open>\<^verbatim>\<open>beginDataPtr\<close> returns the tuple (pointer, format, size); the null pointer is
  \<open>None\<close>.\<close>

definition beginDataPtr :: "CDMABuffer \<Rightarrow> 32 word \<Rightarrow> nat option \<times> 32 word \<times> 64 word" where
  "beginDataPtr b flags = (None, 0, 0)"

definition endDataPtr :: "CDMABuffer \<Rightarrow> event list \<times> CDMABuffer" where
  "endDataPtr b = ([], b)"

definition good :: "CDMABuffer \<Rightarrow> bool" where
  "good b = m_success b"

section \<open>Releasing the plane file descriptors\<close>

text \<open>
  \<^verbatim>\<open>for (int i = 0; i < m_attrs.planes; ++i)\<close>: slot \<open>i\<close> is skipped when it holds
  \<open>-1\<close>, closed and overwritten with \<open>-1\<close> otherwise. The array has four entries and the
  source does not check the index: a plane count above the number of entries is undefined
  behaviour in C++ and lies outside what the theorems below are stated for.
\<close>

function closeFDs_loop :: "int \<Rightarrow> int \<Rightarrow> int list \<Rightarrow> event list \<times> int list" where
  "closeFDs_loop i n slots =
     (if i < n then
        (if slots ! nat i = -1 then closeFDs_loop (i + 1) n slots
         else (let (tr, slots') = closeFDs_loop (i + 1) n (slots[nat i := -1])
               in (CloseFd (slots ! nat i) # tr, slots')))
      else ([], slots))"
  by pat_completeness auto
termination
  by (relation "measure (\<lambda>(i, n, slots). nat (n - i))") auto

definition closeFDs :: "CDMABuffer \<Rightarrow> event list \<times> CDMABuffer" where
  "closeFDs b =
     (let (tr, slots') = closeFDs_loop 0 (planes (m_attrs b)) (fds (m_attrs b))
      in (tr, b\<lparr>m_attrs := (m_attrs b)\<lparr>fds := slots', planes := 0\<rparr>\<rparr>))"

text \<open>The handler the constructor registers on \<^verbatim>\<open>events.destroy\<close>:
  \<^verbatim>\<open>closeFDs(); m_listeners.resourceDestroy.reset();\<close>\<close>

definition onResourceDestroy :: "CDMABuffer \<Rightarrow> event list \<times> CDMABuffer" where
  "onResourceDestroy b =
     (let (tr, b') = closeFDs b
      in (tr @ [ListenerReset], b'\<lparr>resourceDestroy := False\<rparr>))"

text \<open>The destroy notification firing. The signal belongs to the Hyprutils library: it
  calls the listeners that are registered, so the handler runs while the listener is held
  and nothing happens once it has been reset.\<close>

definition emit_destroy :: "CDMABuffer \<Rightarrow> event list \<times> CDMABuffer" where
  "emit_destroy b = (if resourceDestroy b then onResourceDestroy b else ([], b))"

text \<open>The destructor: \<^verbatim>\<open>if (m_resource) m_resource->sendRelease(); closeFDs();\<close>\<close>

definition destructor :: "CDMABuffer \<Rightarrow> event list \<times> CDMABuffer" where
  "destructor b =
     (let (tr, b') = closeFDs b
      in ((if m_resource b then [SendRelease] else []) @ tr, b'))"

section \<open>The cross-GPU CPU-copy path (\<^verbatim>\<open>createCrossGPUTexture\<close>)\<close>

text \<open>\<^verbatim>\<open>const size_t bufferSize = m_attrs.strides[0] * static_cast<size_t>(m_attrs.size.y)\<close>:
  the 32-bit stride is widened and the product is taken in \<^verbatim>\<open>size_t\<close>, modulo \<open>2^64\<close>.\<close>

definition bufferSize :: "SDMABUFAttrs \<Rightarrow> 64 word" where
  "bufferSize a = ucast (strides a ! 0) * (of_nat (size_y a) :: 64 word)"

text \<open>
  The two mapping stages (source lines 230 to 270). Stage one maps the dma-buf descriptor
  itself; when that fails, stage two needs \<^verbatim>\<open>sourceDevice\<close>, turns the descriptor into
  a buffer handle of that device, asks for the dumb-buffer mapping offset and maps the
  device. The result is the mapped address, or \<open>None\<close> where the source returns false.
\<close>

definition mapBuffer :: "environment \<Rightarrow> SDMABUFAttrs \<Rightarrow> event list \<times> nat option" where
  "mapBuffer E a =
     (let len = bufferSize a;
          fd0 = fds a ! 0;
          off0 = (ucast (offsets a ! 0) :: 64 word);
          dev = sourceDevice a;
          r1 = mmap E 0 len fd0 off0
      in case r1 of
           Some mapped \<Rightarrow> ([Mmap len fd0 off0 r1], Some mapped)
         | None \<Rightarrow>
             (let tr1 = [Mmap len fd0 off0 r1,
                         DebugLog ERR ''Cross-GPU: Failed to mmap dmabuf fd, trying DRM handle path'']
              in if dev < 0 then
                   (tr1 @ [DebugLog ERR ''Cross-GPU: No source device available for DRM handle mapping''],
                    None)
                 else
                   (let rh = drmPrimeFDToHandle E dev fd0
                    in case rh of
                         None \<Rightarrow>
                           (tr1 @ [DrmPrimeFDToHandle dev fd0 rh,
                                   DebugLog ERR ''Cross-GPU: drmPrimeFDToHandle failed''],
                            None)
                       | Some handle \<Rightarrow>
                           (let rm = drmIoctl_MODE_MAP_DUMB E dev handle
                            in case rm of
                                 None \<Rightarrow>
                                   (tr1 @ [DrmPrimeFDToHandle dev fd0 rh,
                                           DrmIoctlMapDumb dev handle rm,
                                           DebugLog ERR ''Cross-GPU: DRM_IOCTL_MODE_MAP_DUMB failed'',
                                           DrmCloseBufferHandle dev handle],
                                    None)
                               | Some moff \<Rightarrow>
                                   (let r2 = mmap E 1 len dev moff;
                                        tr2 = tr1 @ [DrmPrimeFDToHandle dev fd0 rh,
                                                     DrmIoctlMapDumb dev handle rm,
                                                     Mmap len dev moff r2,
                                                     DrmCloseBufferHandle dev handle]
                                    in case r2 of
                                         None \<Rightarrow>
                                           (tr2 @ [DebugLog ERR ''Cross-GPU: mmap via DRM handle failed''],
                                            None)
                                       | Some mapped \<Rightarrow> (tr2, Some mapped))))))"

text \<open>The first \<^verbatim>\<open>switch\<close> on the format: the GL upload format and the bytes per pixel,
  or the error line of the two unsupported arms (\<^verbatim>\<open>DRM_FORMAT_BGR888\<close>, and the
  default).\<close>

definition glFormatOf :: "32 word \<Rightarrow> string + (gl_format \<times> nat)" where
  "glFormatOf f =
     (if f = DRM_FORMAT_ARGB8888 \<or> f = DRM_FORMAT_XRGB8888 then Inr (GL_BGRA_EXT, 4)
      else if f = DRM_FORMAT_ABGR8888 \<or> f = DRM_FORMAT_XBGR8888 then Inr (GL_RGBA, 4)
      else if f = DRM_FORMAT_RGB888 then Inr (GL_RGB, 3)
      else if f = DRM_FORMAT_BGR888 then Inl ''Cross-GPU: BGR888 format not supported in GLES''
      else Inl ''Cross-GPU: Unsupported DRM format'')"

text \<open>The second \<^verbatim>\<open>switch\<close>: the texture type by the presence of alpha.\<close>

definition textureTypeOf :: "32 word \<Rightarrow> eTextureType" where
  "textureTypeOf f =
     (if f = DRM_FORMAT_XRGB8888 \<or> f = DRM_FORMAT_XBGR8888 \<or> f = DRM_FORMAT_RGB888
      then TEXTURE_RGBX else TEXTURE_RGBA)"

text \<open>From the format switch to the end (source lines 272 to 365), with the buffer mapped
  at \<open>mapped\<close>.\<close>

definition uploadTexture ::
  "environment \<Rightarrow> CDMABuffer \<Rightarrow> nat \<Rightarrow> event list \<times> bool \<times> CDMABuffer" where
  "uploadTexture E b mapped =
     (let a = m_attrs b; len = bufferSize a
      in case glFormatOf (format a) of
           Inl msg \<Rightarrow> ([DebugLog ERR msg, Munmap mapped len], False, b)
         | Inr (glFormat, bpp) \<Rightarrow>
             (let texID = glGenTextures E
              in if texID = 0 then
                   ([GlGenTextures texID, DebugLog ERR ''Cross-GPU: glGenTextures failed'',
                     Munmap mapped len], False, b)
                 else
                   (let expectedStride = int (size_x a) * int bpp;
                        err = glGetError E;
                        tr = [GlGenTextures texID,
                              GlBindTexture GL_TEXTURE_2D texID,
                              GlTexParameteri GL_TEXTURE_2D GL_TEXTURE_MIN_FILTER,
                              GlTexParameteri GL_TEXTURE_2D GL_TEXTURE_MAG_FILTER,
                              GlTexParameteri GL_TEXTURE_2D GL_TEXTURE_WRAP_S,
                              GlTexParameteri GL_TEXTURE_2D GL_TEXTURE_WRAP_T]
                             @ (if strides a ! 0 \<noteq> of_int expectedStride
                                then [GlPixelStorei (strides a ! 0 div of_nat bpp)] else [])
                             @ [GlTexImage2D (size_x a) (size_y a) glFormat mapped,
                                GlPixelStorei 0,
                                GlBindTexture GL_TEXTURE_2D 0,
                                Munmap mapped len,
                                GlGetError err]
                    in if err \<noteq> 0 then
                         (tr @ [DebugLog ERR ''Cross-GPU: GL error after texture upload'',
                                GlDeleteTextures texID], False, b)
                       else
                         (tr @ [DebugLog LOG ''Cross-GPU: Created texture via CPU copy''], True,
                          b\<lparr>m_texture := Some
                             \<lparr>m_texID = texID, m_size = (size_x a, size_y a),
                              m_target = GL_TEXTURE_2D, m_isSynchronous = True,
                              m_type = textureTypeOf (format a), m_eglImage = None\<rparr>\<rparr>))))"

definition createCrossGPUTexture ::
  "environment \<Rightarrow> CDMABuffer \<Rightarrow> event list \<times> bool \<times> CDMABuffer" where
  "createCrossGPUTexture E b =
     (let a = m_attrs b
      in if \<not> is_linux E then ([Call_createCrossGPUTexture], False, b)
         else if planes a \<noteq> 1 then
           ([Call_createCrossGPUTexture,
             DebugLog ERR ''Cross-GPU: Multi-plane buffers not yet supported''], False, b)
         else if bufferSize a = 0 then
           ([Call_createCrossGPUTexture, DebugLog ERR ''Cross-GPU: Invalid buffer size''],
            False, b)
         else
           (case mapBuffer E a of
              (tr, None) \<Rightarrow> (Call_createCrossGPUTexture # tr, False, b)
            | (tr, Some mapped) \<Rightarrow>
                (case uploadTexture E b mapped of
                   (tr', ok, b') \<Rightarrow> (Call_createCrossGPUTexture # tr @ tr', ok, b'))))"

section \<open>The constructor\<close>

text \<open>Source lines 82 to 87: the texture that wraps the EGL image, the two flags, and the
  error line when the texture has no identity. \<open>tr\<close> is what happened before.\<close>

definition finishImport ::
  "environment \<Rightarrow> CDMABuffer \<Rightarrow> nat \<Rightarrow> event list \<Rightarrow> event list \<times> CDMABuffer" where
  "finishImport E b eglImage tr =
     (let t = newTexture E (m_attrs b) eglImage;
          ok = (m_texID t \<noteq> 0)
      in (tr @ [MakeTexture eglImage]
             @ (if ok then [] else [DebugLog ERR ''Failed to create a dmabuf: texture is null'']),
          b\<lparr>m_texture := Some t,
            m_opaque := isFormatOpaque E (format (m_attrs b)),
            m_success := ok\<rparr>))"

text \<open>Source lines 63 to 80: the EGL import, and the second attempt with the modifier
  set to \<^verbatim>\<open>DRM_FORMAT_MOD_INVALID\<close> when the first returns no image.\<close>

definition importEGLImage :: "environment \<Rightarrow> CDMABuffer \<Rightarrow> event list \<times> CDMABuffer" where
  "importEGLImage E b =
     (let a = m_attrs b;
          logDMABUF = HYPRLAND_DMABUF_LOG E;
          r1 = createEGLImage E 0 a
      in case r1 of
           Some eglImage \<Rightarrow> finishImport E b eglImage [CreateEGLImage a r1]
         | None \<Rightarrow>
             (let a' = a\<lparr>modifier := DRM_FORMAT_MOD_INVALID\<rparr>;
                  b' = b\<lparr>m_attrs := a'\<rparr>;
                  r2 = createEGLImage E 1 a';
                  tr = [CreateEGLImage a r1]
                       @ (if logDMABUF \<and> modifier a \<noteq> DRM_FORMAT_MOD_INVALID
                          then [DebugLog WARN
                                  ''CDMABuffer: dmabuf import failed with modifier, retrying without modifier'']
                          else [])
                       @ [DebugLog ERR ''CDMABuffer: failed to import EGLImage, retrying as implicit'',
                          CreateEGLImage a' r2]
              in case r2 of
                   None \<Rightarrow>
                     (tr @ [DebugLog ERR ''CDMABuffer: failed to import EGLImage'']
                         @ (if logDMABUF
                            then [DebugLog ERR ''CDMABuffer: dmabuf import failed even without modifier'']
                            else []),
                      b')
                 | Some eglImage \<Rightarrow> finishImport E b' eglImage tr))"

text \<open>\<^verbatim>\<open>allowCPUFallback = enableCPUFallback && !disableCPUFallback\<close> (source line 38).\<close>

definition allowCPUFallback :: "environment \<Rightarrow> bool" where
  "allowCPUFallback E =
     (HYPRLAND_DMABUF_ENABLE_CPU_FALLBACK E \<and> \<not> HYPRLAND_DMABUF_DISABLE_CPU_FALLBACK E)"

text \<open>
  Modelled from the spec: the default member initialisers of the class, which the header
  declares and this file does not show. The spec has "success=false and no texture is
  attached" for an import in which nothing succeeded, so \<^verbatim>\<open>m_texture\<close> starts empty and
  \<^verbatim>\<open>m_success\<close> false. It gives no initial value for \<^verbatim>\<open>m_opaque\<close>, which is the
  parameter \<open>opaque0\<close>. The attributes, the size, the protocol resource and the destroy
  listener are what the constructor itself sets (source lines 23 to 32).
\<close>

definition initial_buffer :: "bool \<Rightarrow> SDMABUFAttrs \<Rightarrow> CDMABuffer" where
  "initial_buffer opaque0 attrs0 =
     \<lparr>m_attrs = attrs0, m_texture = None, m_opaque = opaque0, m_success = False,
      m_resource = True, resourceDestroy = True,
      buf_size = (size_x attrs0, size_y attrs0)\<rparr>"

text \<open>The constructor (source lines 23 to 88), with the two import strategies in the
  order of the source.\<close>

definition CDMABuffer_new ::
  "environment \<Rightarrow> bool \<Rightarrow> SDMABUFAttrs \<Rightarrow> event list \<times> CDMABuffer" where
  "CDMABuffer_new E opaque0 attrs0 =
     (let b = initial_buffer opaque0 attrs0;
          pre = [MakeEGLCurrent, ListenDestroy, CreateResource]
      in if crossGPU attrs0 \<and> secondaryDrmRenderNode_available E \<and> allowCPUFallback E then
           (let pre1 = pre @ [DebugLog LOG
                  ''CDMABuffer: Cross-GPU buffer detected, using CPU copy fallback (opt-in)'']
            in case createCrossGPUTexture E b of
                 (tr, False, b1) \<Rightarrow>
                   (case importEGLImage E b1 of
                      (tr2, b2) \<Rightarrow>
                        (pre1 @ tr
                           @ [DebugLog ERR ''CDMABuffer: Cross-GPU fallback failed, trying EGLImage anyway'']
                           @ tr2, b2))
               | (tr, True, b1) \<Rightarrow>
                   (let b2 = b1\<lparr>m_opaque := isFormatOpaque E (format (m_attrs b1)),
                                m_success := (case m_texture b1 of
                                                None \<Rightarrow> False
                                              | Some t \<Rightarrow> m_texID t \<noteq> 0)\<rparr>
                    in if m_success b2 then
                         (pre1 @ tr @ [DebugLog LOG
                            ''CDMABuffer: Cross-GPU texture created successfully via CPU copy''],
                          b2)
                       else
                         (case importEGLImage E b2 of
                            (tr2, b3) \<Rightarrow> (pre1 @ tr @ tr2, b3))))
         else
           (let pre1 = pre @ (if crossGPU attrs0 \<and> secondaryDrmRenderNode_available E
                                 \<and> \<not> allowCPUFallback E
                              then [DebugLog LOG
                                ''CDMABuffer: Cross-GPU buffer detected, CPU fallback disabled; trying EGL import'']
                              else [])
            in case importEGLImage E b of
                 (tr2, b2) \<Rightarrow> (pre1 @ tr2, b2)))"


section \<open>Exporting the read fence (\<^verbatim>\<open>exportSyncFile\<close>)\<close>

text \<open>
  \<^verbatim>\<open>doIoctl\<close> repeats the system call while it returns \<open>-1\<close> with \<^verbatim>\<open>EINTR\<close> or
  \<^verbatim>\<open>EAGAIN\<close>. Nothing bounds the number of repetitions, so the function is partial:
  \<open>None\<close> is the call that never returns. \<open>n\<close> counts the system calls made so far,
  \<open>tr\<close> is the trace so far.
\<close>

partial_function (option) doIoctl ::
  "(nat \<Rightarrow> ioctl_req \<Rightarrow> ioctl_ret) \<Rightarrow> ioctl_req \<Rightarrow> nat \<Rightarrow> event list
     \<Rightarrow> (ioctl_ret \<times> nat \<times> event list) option" where
  "doIoctl answer req n tr =
     (let r = answer n req
      in if rv r = -1 \<and> (errno r = EINTR \<or> errno r = EAGAIN)
         then doIoctl answer req (Suc n) (tr @ [Ioctl req r])
         else Some (r, Suc n, tr @ [Ioctl req r]))"

declare doIoctl.simps [code]

text \<open>
  The first loop (source lines 161 to 179) visits all four descriptor slots; \<open>i\<close> is the
  number of the slot, \<open>syncFds\<close> the fences collected so far. The readability probe is
  made only when the renderer exists and is not Intel.
\<close>

fun export_fences ::
  "environment \<Rightarrow> nat \<Rightarrow> int list \<Rightarrow> int list \<Rightarrow> nat \<Rightarrow> event list
     \<Rightarrow> (int list \<times> nat \<times> event list) option" where
  "export_fences E i [] syncFds n tr = Some (syncFds, n, tr)"
| "export_fences E i (fd # rest) syncFds n tr =
     (if fd = -1 then export_fences E (Suc i) rest syncFds n tr
      else if renderer_present E \<and> \<not> isIntel E \<and> isReadable E i fd
      then export_fences E (Suc i) rest syncFds n (tr @ [IsReadable fd True])
      else
        (let tr1 = (if renderer_present E \<and> \<not> isIntel E
                    then tr @ [IsReadable fd False] else tr)
         in case doIoctl (ioctl E) (DMA_BUF_IOCTL_EXPORT_SYNC_FILE fd) n tr1 of
              None \<Rightarrow> None
            | Some (r, n', tr') \<Rightarrow>
                if rv r = 0 then export_fences E (Suc i) rest (syncFds @ [out_fd r]) n' tr'
                else export_fences E (Suc i) rest syncFds n' tr'))"

text \<open>
  The second loop (source lines 184 to 204). \<open>syncFd\<close> is the accumulator, \<open>-1\<close> when it
  holds no descriptor (\<^verbatim>\<open>!syncFd.isValid()\<close>): then the next fence is moved into it.
  Otherwise the two are merged; the merged fence replaces the accumulator, and a failed
  merge empties it (\<^verbatim>\<open>syncFd = {}\<close>). The loop goes on to the next fence in both cases.
\<close>

fun merge_fences ::
  "environment \<Rightarrow> int list \<Rightarrow> int \<Rightarrow> nat \<Rightarrow> event list \<Rightarrow> (int \<times> nat \<times> event list) option" where
  "merge_fences E [] syncFd n tr = Some (syncFd, n, tr)"
| "merge_fences E (fd # rest) syncFd n tr =
     (if syncFd = -1 then merge_fences E rest fd n tr
      else
        (case doIoctl (ioctl E) (SYNC_IOC_MERGE syncFd fd ''merged release fence'') n tr of
           None \<Rightarrow> None
         | Some (r, n', tr') \<Rightarrow>
             if rv r = 0 then merge_fences E rest (out_fd r) n' tr'
             else merge_fences E rest (-1) n' tr'))"

text \<open>The result is the fence descriptor (\<open>-1\<close> is the empty \<^verbatim>\<open>CFileDescriptor\<close>) and
  the trace; \<open>None\<close> when an \<^verbatim>\<open>ioctl\<close> is repeated for ever.\<close>

definition exportSyncFile :: "environment \<Rightarrow> CDMABuffer \<Rightarrow> (int \<times> event list) option" where
  "exportSyncFile E b =
     (if \<not> good b then Some (-1, [])
      else if \<not> is_linux E then Some (-1, [])
      else
        (case export_fences E 0 (fds (m_attrs b)) [] 0 [] of
           None \<Rightarrow> None
         | Some (syncFds, n, tr) \<Rightarrow>
             if syncFds = [] then Some (-1, tr)
             else
               (case merge_fences E syncFds (-1) n tr of
                  None \<Rightarrow> None
                | Some (syncFd, n', tr') \<Rightarrow> Some (syncFd, tr'))))"

section \<open>Reading a trace\<close>

definition is_DebugLog :: "event \<Rightarrow> bool" where
  "is_DebugLog e = (case e of DebugLog lvl msg \<Rightarrow> True | _ \<Rightarrow> False)"

definition is_Mmap :: "event \<Rightarrow> bool" where
  "is_Mmap e = (case e of Mmap len fd off r \<Rightarrow> True | _ \<Rightarrow> False)"



text \<open>The memory mappings that a trace leaves mapped, starting from the mappings \<open>m\<close>:
  a successful \<^verbatim>\<open>mmap\<close> adds its address, \<^verbatim>\<open>munmap\<close> removes it.\<close>

primrec outstanding_maps :: "event list \<Rightarrow> nat list \<Rightarrow> nat list" where
  "outstanding_maps [] m = m"
| "outstanding_maps (e # tr) m =
     outstanding_maps tr
       (case e of Mmap len fd off (Some p) \<Rightarrow> p # m
                | Munmap p len \<Rightarrow> remove1 p m
                | _ \<Rightarrow> m)"



text \<open>The import strategies a trace attempts, in order: a call of
  \<^verbatim>\<open>createCrossGPUTexture\<close> is an attempt of the cross-device materializer, a call of
  \<^verbatim>\<open>createEGLImage\<close> an attempt of the zero-copy importer.\<close>

datatype strategy = Materializer | ZeroCopy

definition strategy_of :: "event \<Rightarrow> strategy option" where
  "strategy_of e =
     (case e of Call_createCrossGPUTexture \<Rightarrow> Some Materializer
              | CreateEGLImage a r \<Rightarrow> Some ZeroCopy
              | _ \<Rightarrow> None)"

definition strategies :: "event list \<Rightarrow> strategy list" where
  "strategies tr = List.map_filter strategy_of tr"

text \<open>The image-creation requests of a trace: the attributes asked for and the answer.\<close>

definition egl_request :: "event \<Rightarrow> (SDMABUFAttrs \<times> nat option) option" where
  "egl_request e = (case e of CreateEGLImage a r \<Rightarrow> Some (a, r) | _ \<Rightarrow> None)"

definition egl_requests :: "event list \<Rightarrow> (SDMABUFAttrs \<times> nat option) list" where
  "egl_requests tr = List.map_filter egl_request tr"


section \<open>Concrete inputs\<close>

text \<open>
  A machine on which the dma-buf cannot be mapped directly but the device mapping works,
  the EGL import succeeds only with the implicit modifier, the renderer is Intel (so the
  readability probe is skipped), every fence export succeeds and the fourth system call
  (the first merge after three exports) fails with \<^verbatim>\<open>ENOMEM\<close>.
\<close>

definition E0 :: environment where
  "E0 = \<lparr>is_linux = True,
          HYPRLAND_DMABUF_ENABLE_CPU_FALLBACK = True,
          HYPRLAND_DMABUF_DISABLE_CPU_FALLBACK = False,
          HYPRLAND_DMABUF_LOG = True,
          secondaryDrmRenderNode_available = True,
          createEGLImage = (\<lambda>n a. if modifier a = DRM_FORMAT_MOD_INVALID then Some 1 else None),
          newTexture = (\<lambda>a img. \<lparr>m_texID = 5, m_size = (size_x a, size_y a),
                                   m_target = GL_TEXTURE_2D, m_isSynchronous = False,
                                   m_type = TEXTURE_RGBA, m_eglImage = Some img\<rparr>),
          isFormatOpaque = (\<lambda>f. f = DRM_FORMAT_XRGB8888 \<or> f = DRM_FORMAT_XBGR8888
                                  \<or> f = DRM_FORMAT_RGB888 \<or> f = DRM_FORMAT_BGR888),
          mmap = (\<lambda>n len fd off. if n = 0 then None else Some 4096),
          drmPrimeFDToHandle = (\<lambda>dev fd. Some 3),
          drmIoctl_MODE_MAP_DUMB = (\<lambda>dev handle. Some 65536),
          glGenTextures = 2,
          glGetError = 0,
          renderer_present = True,
          isIntel = True,
          isReadable = (\<lambda>i fd. False),
          ioctl = (\<lambda>n req. case req of
                     DMA_BUF_IOCTL_EXPORT_SYNC_FILE fd \<Rightarrow> \<lparr>rv = 0, errno = 0, out_fd = fd + 100\<rparr>
                   | SYNC_IOC_MERGE fd1 fd2 name \<Rightarrow>
                       if n = 3 then \<lparr>rv = -1, errno = 12, out_fd = -1\<rparr>
                       else \<lparr>rv = 0, errno = 0, out_fd = 200\<rparr>)\<rparr>"

text \<open>The same machine with an EGL import that always fails.\<close>

definition E_noimport :: environment where
  "E_noimport = E0\<lparr>createEGLImage := (\<lambda>n a. None)\<rparr>"


text \<open>The same machine without the opt-in to the CPU fallback.\<close>

definition E_nofallback :: environment where
  "E_nofallback = E0\<lparr>HYPRLAND_DMABUF_ENABLE_CPU_FALLBACK := False\<rparr>"

text \<open>A single-plane 64 by 32 buffer with a linear modifier, from another GPU.\<close>

definition attrs_x :: SDMABUFAttrs where
  "attrs_x = \<lparr>size_x = 64, size_y = 32, format = DRM_FORMAT_XRGB8888, modifier = 0,
              planes = 1, offsets = [0, 0, 0, 0], strides = [256, 0, 0, 0],
              fds = [7, -1, -1, -1], crossGPU = True, sourceDevice = 9\<rparr>"

text \<open>The same buffer in a format the CPU copy does not support, and the same buffer from
  the compositor's own GPU, without and with an alpha channel.\<close>

definition attrs_bgr :: SDMABUFAttrs where
  "attrs_bgr = attrs_x\<lparr>format := DRM_FORMAT_BGR888\<rparr>"

definition attrs_local :: SDMABUFAttrs where
  "attrs_local = attrs_x\<lparr>crossGPU := False\<rparr>"

definition attrs_argb :: SDMABUFAttrs where
  "attrs_argb = attrs_x\<lparr>crossGPU := False, format := DRM_FORMAT_ARGB8888\<rparr>"

definition attrs_flat :: SDMABUFAttrs where
  "attrs_flat = attrs_x\<lparr>size_y := 0\<rparr>"

text \<open>A buffer object with two open planes whose import failed.\<close>

definition b0 :: CDMABuffer where
  "b0 = \<lparr>m_attrs = \<lparr>size_x = 64, size_y = 32, format = DRM_FORMAT_XRGB8888,
            modifier = 0, planes = 2, offsets = [0, 0, 0, 0], strides = [256, 256, 0, 0],
            fds = [7, 8, -1, -1], crossGPU = False, sourceDevice = -1\<rparr>,
          m_texture = None, m_opaque = False, m_success = False, m_resource = True,
          resourceDestroy = True, buf_size = (64, 32)\<rparr>"

text \<open>A successfully imported buffer with three open planes.\<close>

definition b3 :: CDMABuffer where
  "b3 = \<lparr>m_attrs = \<lparr>size_x = 64, size_y = 32, format = DRM_FORMAT_XRGB8888,
            modifier = 0, planes = 3, offsets = [0, 0, 0, 0], strides = [256, 256, 256, 0],
            fds = [10, 11, 12, -1], crossGPU = False, sourceDevice = -1\<rparr>,
          m_texture = Some \<lparr>m_texID = 5, m_size = (64, 32), m_target = GL_TEXTURE_2D,
                            m_isSynchronous = False, m_type = TEXTURE_RGBA,
                            m_eglImage = Some 1\<rparr>,
          m_opaque = True, m_success = True, m_resource = True,
          resourceDestroy = True, buf_size = (64, 32)\<rparr>"


text \<open>The same buffer after its descriptors have been closed.\<close>

definition b3_closed :: CDMABuffer where
  "b3_closed = b3\<lparr>m_attrs := (m_attrs b3)\<lparr>fds := [-1, -1, -1, -1], planes := 0\<rparr>\<rparr>"

text \<open>A machine whose kernel refuses every \<^verbatim>\<open>ioctl\<close> with \<^verbatim>\<open>EBADF\<close>, and a machine with
  another GPU vendor on which every descriptor is readable already.\<close>

definition E_badf :: environment where
  "E_badf = E0\<lparr>ioctl := (\<lambda>n req. \<lparr>rv = -1, errno = 9, out_fd = -1\<rparr>)\<rparr>"

definition E_readable :: environment where
  "E_readable = E0\<lparr>isIntel := False, isReadable := (\<lambda>i fd. True)\<rparr>"

section \<open>Properties of the release path\<close>

declare closeFDs_loop.simps [simp del]

lemma closeFDs_loop_stop: "\<not> i < n \<Longrightarrow> closeFDs_loop i n slots = ([], slots)"
  by (subst closeFDs_loop.simps) simp

lemma closeFDs_loop_skip:
  "i < n \<Longrightarrow> slots ! nat i = -1 \<Longrightarrow> closeFDs_loop i n slots = closeFDs_loop (i + 1) n slots"
  by (subst closeFDs_loop.simps) simp

lemma closeFDs_loop_close:
  "i < n \<Longrightarrow> slots ! nat i \<noteq> -1 \<Longrightarrow>
   closeFDs_loop i n slots =
     (CloseFd (slots ! nat i) # fst (closeFDs_loop (i + 1) n (slots[nat i := -1])),
      snd (closeFDs_loop (i + 1) n (slots[nat i := -1])))"
  by (subst closeFDs_loop.simps) (simp split: prod.splits)

lemma closeFDs_loop_length: "length (snd (closeFDs_loop i n slots)) = length slots"
proof (induction i n slots rule: closeFDs_loop.induct)
  case (1 i n slots)
  then show ?case
    by (cases "i < n"; cases "slots ! nat i = -1")
       (simp_all add: closeFDs_loop_stop closeFDs_loop_skip closeFDs_loop_close)
qed

text \<open>After the loop, the slots from \<open>i\<close> up to the plane count hold \<open>-1\<close> and the others
  are as they were.\<close>

lemma closeFDs_loop_nth:
  "0 \<le> i \<Longrightarrow> n \<le> int (length slots) \<Longrightarrow> j < length slots \<Longrightarrow>
   snd (closeFDs_loop i n slots) ! j = (if nat i \<le> j \<and> int j < n then -1 else slots ! j)"
proof (induction i n slots rule: closeFDs_loop.induct)
  case (1 i n slots)
  show ?case
  proof (cases "i < n")
    case False
    with 1(3) show ?thesis by (auto simp: closeFDs_loop_stop)
  next
    case True
    have nat_step: "nat (i + 1) = Suc (nat i)" using 1(3) by simp
    show ?thesis
    proof (cases "slots ! nat i = -1")
      case c: True
      have "snd (closeFDs_loop i n slots) ! j = snd (closeFDs_loop (i + 1) n slots) ! j"
        using True c by (simp add: closeFDs_loop_skip)
      also have "\<dots> = (if nat (i + 1) \<le> j \<and> int j < n then -1 else slots ! j)"
        using 1(1)[OF True c] 1(3,4,5) by simp
      also have "\<dots> = (if nat i \<le> j \<and> int j < n then -1 else slots ! j)"
        using c nat_step by (cases "j = nat i") auto
      finally show ?thesis .
    next
      case c: False
      have "snd (closeFDs_loop i n slots) ! j =
            snd (closeFDs_loop (i + 1) n (slots[nat i := -1])) ! j"
        using True c by (simp add: closeFDs_loop_close)
      also have "\<dots> = (if nat (i + 1) \<le> j \<and> int j < n then -1 else (slots[nat i := -1]) ! j)"
        using 1(2)[OF True c] 1(3,4,5) by simp
      also have "\<dots> = (if nat i \<le> j \<and> int j < n then -1 else slots ! j)"
        using nat_step True 1(3,4,5) by (cases "j = nat i") auto
      finally show ?thesis .
    qed
  qed
qed

text \<open>The loop closes exactly the descriptors other than \<open>-1\<close> among the slots it visits,
  in order.\<close>

lemma closeFDs_loop_trace:
  "0 \<le> i \<Longrightarrow> n \<le> int (length slots) \<Longrightarrow>
   fst (closeFDs_loop i n slots) =
     map CloseFd (filter (\<lambda>x. x \<noteq> -1) (map (\<lambda>j. slots ! j) [nat i..<nat n]))"
proof (induction i n slots rule: closeFDs_loop.induct)
  case (1 i n slots)
  show ?case
  proof (cases "i < n")
    case False
    then show ?thesis by (simp add: closeFDs_loop_stop)
  next
    case True
    have nat_step: "nat (i + 1) = Suc (nat i)" using 1(3) by simp
    have range: "[nat i..<nat n] = nat i # [Suc (nat i)..<nat n]"
      using True 1(3) by (simp add: upt_conv_Cons)
    show ?thesis
    proof (cases "slots ! nat i = -1")
      case c: True
      show ?thesis
        using 1(1)[OF True c] 1(3,4) True c
        by (simp add: closeFDs_loop_skip range nat_step)
    next
      case c: False
      have unch: "map (\<lambda>j. (slots[nat i := -1]) ! j) [Suc (nat i)..<nat n] =
                  map (\<lambda>j. slots ! j) [Suc (nat i)..<nat n]"
        by (rule map_cong) auto
      show ?thesis
        using 1(2)[OF True c] 1(3,4) True c
        by (simp add: closeFDs_loop_close range nat_step unch)
    qed
  qed
qed

lemma take_as_nth: "n \<le> length xs \<Longrightarrow> map (\<lambda>j. xs ! j) [0..<n] = take n xs"
  by (simp add: list_eq_iff_nth_eq)

lemma closeFDs_unfold:
  "closeFDs b =
     (fst (closeFDs_loop 0 (planes (m_attrs b)) (fds (m_attrs b))),
      b\<lparr>m_attrs := (m_attrs b)\<lparr>fds := snd (closeFDs_loop 0 (planes (m_attrs b)) (fds (m_attrs b))),
                               planes := 0\<rparr>\<rparr>)"
  by (simp add: closeFDs_def split: prod.splits)

lemma closeFDs_again: "closeFDs (snd (closeFDs b)) = ([], snd (closeFDs b))"
  by (simp add: closeFDs_unfold) (simp add: closeFDs_def closeFDs_loop_stop)

text \<open>
  C6. \<^verbatim>\<open>closeFDs\<close> is idempotent: a second run changes nothing and closes nothing, and
  the plane count is zero after the first. For a plane count within the four-entry array:
  the run closes exactly the plane slots that do not hold \<open>-1\<close> (a slot holding \<open>-1\<close> is
  skipped, never closed), every plane slot holds \<open>-1\<close> afterwards and the slots beyond the
  plane count are untouched; so when those already held \<open>-1\<close>, as the data model requires,
  every slot of the array holds \<open>-1\<close>.
\<close>

theorem closeFDs_idempotent:
  "snd (closeFDs (snd (closeFDs b))) = snd (closeFDs b)
   \<and> fst (closeFDs (snd (closeFDs b))) = []
   \<and> planes (m_attrs (snd (closeFDs b))) = 0
   \<and> (planes (m_attrs b) \<le> int (length (fds (m_attrs b))) \<longrightarrow>
        fst (closeFDs b) =
          map CloseFd (filter (\<lambda>x. x \<noteq> -1) (take (nat (planes (m_attrs b))) (fds (m_attrs b))))
        \<and> CloseFd (-1) \<notin> set (fst (closeFDs b))
        \<and> length (fds (m_attrs (snd (closeFDs b)))) = length (fds (m_attrs b))
        \<and> (\<forall>j < length (fds (m_attrs b)).
              fds (m_attrs (snd (closeFDs b))) ! j =
                (if int j < planes (m_attrs b) then -1 else fds (m_attrs b) ! j))
        \<and> ((\<forall>j < length (fds (m_attrs b)). planes (m_attrs b) \<le> int j \<longrightarrow> fds (m_attrs b) ! j = -1)
             \<longrightarrow> (\<forall>x \<in> set (fds (m_attrs (snd (closeFDs b)))). x = -1)))"
proof -
  let ?a = "m_attrs b"
  have zero: "planes (m_attrs (snd (closeFDs b))) = 0"
    by (simp add: closeFDs_unfold)
  have wf: ?thesis if le: "planes ?a \<le> int (length (fds ?a))"
  proof -
    have tr: "fst (closeFDs b) =
        map CloseFd (filter (\<lambda>x. x \<noteq> -1) (take (nat (planes ?a)) (fds ?a)))"
      using closeFDs_loop_trace[of 0 "planes ?a" "fds ?a"] le
      by (simp add: closeFDs_unfold take_as_nth)
    have nocl: "CloseFd (-1) \<notin> set (fst (closeFDs b))"
      by (auto simp: tr)
    have len: "length (fds (m_attrs (snd (closeFDs b)))) = length (fds ?a)"
      by (simp add: closeFDs_unfold closeFDs_loop_length)
    have nth: "fds (m_attrs (snd (closeFDs b))) ! j = (if int j < planes ?a then -1 else fds ?a ! j)"
      if "j < length (fds ?a)" for j
      using closeFDs_loop_nth[of 0 "planes ?a" "fds ?a" j] le that by (simp add: closeFDs_unfold)
    have inv: "\<forall>x \<in> set (fds (m_attrs (snd (closeFDs b)))). x = -1"
      if "\<forall>j < length (fds ?a). planes ?a \<le> int j \<longrightarrow> fds ?a ! j = -1"
    proof
      fix x assume "x \<in> set (fds (m_attrs (snd (closeFDs b))))"
      then obtain j where j: "j < length (fds ?a)" and x: "x = fds (m_attrs (snd (closeFDs b))) ! j"
        by (auto simp: in_set_conv_nth len)
      show "x = -1" using nth[OF j] that j x by (cases "int j < planes ?a") auto
    qed
    show ?thesis using closeFDs_again[of b] zero tr nocl len nth inv by simp
  qed
  show ?thesis
  proof (cases "planes ?a \<le> int (length (fds ?a))")
    case True then show ?thesis by (rule wf)
  next
    case False then show ?thesis using closeFDs_again[of b] zero by simp
  qed
qed

lemma closeFDs_b0:
  "closeFDs b0 = ([CloseFd 7, CloseFd 8],
      b0\<lparr>m_attrs := (m_attrs b0)\<lparr>fds := [-1, -1, -1, -1], planes := 0\<rparr>\<rparr>)"
  by (simp add: closeFDs_def closeFDs_loop.simps b0_def)

theorem closeFDs_idempotent_witness:
  "planes (m_attrs b0) \<le> int (length (fds (m_attrs b0)))
   \<and> drop (nat (planes (m_attrs b0))) (fds (m_attrs b0)) = [-1, -1]
   \<and> fst (closeFDs b0) = [CloseFd 7, CloseFd 8]
   \<and> fds (m_attrs (snd (closeFDs b0))) = [-1, -1, -1, -1]
   \<and> planes (m_attrs (snd (closeFDs b0))) = 0
   \<and> closeFDs (snd (closeFDs b0)) = ([], snd (closeFDs b0))"
proof -
  have h: "planes (m_attrs b0) \<le> int (length (fds (m_attrs b0)))"
    by (simp add: b0_def)
  have inv: "\<forall>j < length (fds (m_attrs b0)). planes (m_attrs b0) \<le> int j \<longrightarrow> fds (m_attrs b0) ! j = -1"
    by (simp add: b0_def nth_Cons split: nat.splits)
  have beyond: "drop (nat (planes (m_attrs b0))) (fds (m_attrs b0)) = [-1, -1]"
    by (simp add: b0_def numeral_2_eq_2)
  show ?thesis
    using closeFDs_idempotent[of b0] h inv beyond by (simp add: closeFDs_b0 prod_eq_iff)
qed


section \<open>The destroy notification\<close>

text \<open>
  C4, as the claim states it, fails: on the buffer \<open>b0\<close> with two open planes the handler
  closes both descriptors first and resets the listener last, so its first action is a
  \<^verbatim>\<open>close\<close>, not the unregistration.
\<close>

theorem handler_unregisters_first_counterexample:
  "fst (onResourceDestroy b0) = [CloseFd 7, CloseFd 8, ListenerReset]
   \<and> hd (fst (onResourceDestroy b0)) \<noteq> ListenerReset
   \<and> takeWhile (\<lambda>e. e \<noteq> ListenerReset) (fst (onResourceDestroy b0)) = [CloseFd 7, CloseFd 8]"
  by (simp add: onResourceDestroy_def closeFDs_b0)

text \<open>
  C4, amended. When the destroy notification fires, the handler first runs \<^verbatim>\<open>closeFDs\<close>
  and unregisters the notification as its last action: its trace is the trace of
  \<^verbatim>\<open>closeFDs\<close> followed by the reset, and its state is the state after \<^verbatim>\<open>closeFDs\<close>
  with the listener removed. Once the handler has run the listener is gone, so the same
  notification firing again does nothing (no event, no change of state).
\<close>

theorem handler_unregisters_last:
  "fst (onResourceDestroy b) = fst (closeFDs b) @ [ListenerReset]
   \<and> last (fst (onResourceDestroy b)) = ListenerReset
   \<and> snd (onResourceDestroy b) = (snd (closeFDs b))\<lparr>resourceDestroy := False\<rparr>
   \<and> \<not> resourceDestroy (snd (onResourceDestroy b))
   \<and> emit_destroy (snd (onResourceDestroy b)) = ([], snd (onResourceDestroy b))
   \<and> emit_destroy b = (if resourceDestroy b then onResourceDestroy b else ([], b))"
  by (simp add: onResourceDestroy_def emit_destroy_def split: prod.splits)

section \<open>The capability query and the data pointer\<close>

text \<open>
  C10. The capability query answers \<^verbatim>\<open>BUFFER_CAPABILITY_DATAPTR\<close> for every buffer,
  \<^verbatim>\<open>beginDataPtr\<close> returns the null pointer with format 0 and size 0 for every buffer
  and every flag word, and \<^verbatim>\<open>endDataPtr\<close> does nothing: the advertised capability has
  no implementation behind it.
\<close>

theorem caps_advertised_not_backed:
  "caps b = BUFFER_CAPABILITY_DATAPTR
   \<and> caps b \<noteq> BUFFER_CAPABILITY_NONE
   \<and> beginDataPtr b flags = (None, 0, 0)
   \<and> endDataPtr b = ([], b)"
  by (simp add: caps_def beginDataPtr_def endDataPtr_def)


section \<open>Properties of the cross-GPU path\<close>









lemma createCrossGPUTexture_trace:
  "fst (createCrossGPUTexture E b) =
     (if \<not> is_linux E then [Call_createCrossGPUTexture]
      else if planes (m_attrs b) \<noteq> 1 then
        [Call_createCrossGPUTexture,
         DebugLog ERR ''Cross-GPU: Multi-plane buffers not yet supported'']
      else if bufferSize (m_attrs b) = 0 then
        [Call_createCrossGPUTexture, DebugLog ERR ''Cross-GPU: Invalid buffer size'']
      else Call_createCrossGPUTexture # fst (mapBuffer E (m_attrs b)) @
        (case snd (mapBuffer E (m_attrs b)) of
           None \<Rightarrow> []
         | Some mapped \<Rightarrow> fst (uploadTexture E b mapped)))"
  by (simp add: createCrossGPUTexture_def Let_def split: prod.splits option.splits)

text \<open>
  C7. A buffer whose plane count is not 1, or whose byte length \<^verbatim>\<open>bufferSize\<close> is zero,
  makes \<^verbatim>\<open>createCrossGPUTexture\<close> return false with the buffer unchanged and without any
  \<^verbatim>\<open>mmap\<close>: the trace holds the call itself and log lines only. The byte length is
  zero whenever the stride of plane 0 times the height is zero.
\<close>

theorem materializer_gate:
  "(planes (m_attrs b) \<noteq> 1 \<or> bufferSize (m_attrs b) = 0 \<longrightarrow>
      fst (snd (createCrossGPUTexture E b)) = False
      \<and> snd (snd (createCrossGPUTexture E b)) = b
      \<and> filter is_Mmap (fst (createCrossGPUTexture E b)) = []
      \<and> outstanding_maps (fst (createCrossGPUTexture E b)) [] = []
      \<and> filter (\<lambda>e. \<not> is_DebugLog e) (fst (createCrossGPUTexture E b)) = [Call_createCrossGPUTexture])
   \<and> (unat (strides (m_attrs b) ! 0) * size_y (m_attrs b) = 0 \<longrightarrow> bufferSize (m_attrs b) = 0)"
proof -
  have size0: "bufferSize (m_attrs b) = 0"
    if "unat (strides (m_attrs b) ! 0) * size_y (m_attrs b) = 0"
  proof -
    from that have "strides (m_attrs b) ! 0 = 0 \<or> size_y (m_attrs b) = 0"
      by (auto simp: unat_eq_0)
    then show ?thesis by (auto simp: bufferSize_def)
  qed
  have gate: "fst (snd (createCrossGPUTexture E b)) = False
      \<and> snd (snd (createCrossGPUTexture E b)) = b
      \<and> filter is_Mmap (fst (createCrossGPUTexture E b)) = []
      \<and> outstanding_maps (fst (createCrossGPUTexture E b)) [] = []
      \<and> filter (\<lambda>e. \<not> is_DebugLog e) (fst (createCrossGPUTexture E b)) = [Call_createCrossGPUTexture]"
    if "planes (m_attrs b) \<noteq> 1 \<or> bufferSize (m_attrs b) = 0"
    using that by (auto simp: createCrossGPUTexture_def Let_def is_Mmap_def is_DebugLog_def)
  show ?thesis using size0 gate by blast
qed

theorem materializer_gate_witness:
  "planes (m_attrs b0) \<noteq> 1
   \<and> createCrossGPUTexture E0 b0 =
       ([Call_createCrossGPUTexture,
         DebugLog ERR ''Cross-GPU: Multi-plane buffers not yet supported''], False, b0)
   \<and> unat (strides attrs_flat ! 0) * size_y attrs_flat = 0
   \<and> planes attrs_flat = 1
   \<and> bufferSize (m_attrs (initial_buffer False attrs_flat)) = 0
   \<and> fst (snd (createCrossGPUTexture E0 (initial_buffer False attrs_flat))) = False
   \<and> filter is_Mmap (fst (createCrossGPUTexture E0 (initial_buffer False attrs_flat))) = []"
proof -
  have p: "planes (m_attrs b0) \<noteq> 1" by (simp add: b0_def)
  have z: "unat (strides (m_attrs (initial_buffer False attrs_flat)) ! 0)
             * size_y (m_attrs (initial_buffer False attrs_flat)) = 0"
    by (simp add: initial_buffer_def attrs_flat_def attrs_x_def)
  have run: "createCrossGPUTexture E0 b0 =
       ([Call_createCrossGPUTexture,
         DebugLog ERR ''Cross-GPU: Multi-plane buffers not yet supported''], False, b0)"
    by (simp add: createCrossGPUTexture_def E0_def b0_def)
  show ?thesis
    using materializer_gate[of b0 E0] materializer_gate[of "initial_buffer False attrs_flat" E0] p z
    by (simp add: run) (simp add: initial_buffer_def attrs_flat_def attrs_x_def)
qed





section \<open>Properties of the constructor\<close>

lemma strategies_append: "strategies (xs @ ys) = strategies xs @ strategies ys"
  by (simp add: strategies_def map_filter_def)

lemma strategies_Cons:
  "strategies (e # tr) = (case strategy_of e of None \<Rightarrow> strategies tr | Some s \<Rightarrow> s # strategies tr)"
  by (simp add: strategies_def map_filter_def split: option.splits)

lemma strategies_Nil: "strategies [] = []"
  by (simp add: strategies_def map_filter_def)

lemma egl_requests_append: "egl_requests (xs @ ys) = egl_requests xs @ egl_requests ys"
  by (simp add: egl_requests_def map_filter_def)

lemma egl_requests_Cons:
  "egl_requests (e # tr) = (case egl_request e of None \<Rightarrow> egl_requests tr | Some q \<Rightarrow> q # egl_requests tr)"
  by (simp add: egl_requests_def map_filter_def split: option.splits)

lemma egl_requests_Nil: "egl_requests [] = []"
  by (simp add: egl_requests_def map_filter_def)

lemmas trace_reading =
  strategies_append strategies_Cons strategies_Nil strategy_of_def
  egl_requests_append egl_requests_Cons egl_requests_Nil egl_request_def

text \<open>The cross-GPU path is one attempt of the materializer and asks for no EGL image.\<close>

lemma mapBuffer_strategies:
  "strategies (fst (mapBuffer E a)) = [] \<and> egl_requests (fst (mapBuffer E a)) = []"
  by (simp add: mapBuffer_def Let_def trace_reading split: option.splits)

lemma uploadTexture_strategies:
  "strategies (fst (uploadTexture E b mapped)) = []
   \<and> egl_requests (fst (uploadTexture E b mapped)) = []"
  by (simp add: uploadTexture_def Let_def trace_reading split: sum.splits prod.splits)

lemma createCrossGPUTexture_strategies:
  "strategies (fst (createCrossGPUTexture E b)) = [Materializer]
   \<and> egl_requests (fst (createCrossGPUTexture E b)) = []"
  by (simp add: createCrossGPUTexture_trace trace_reading mapBuffer_strategies
        uploadTexture_strategies split: option.splits)

text \<open>A failed cross-GPU path leaves the object as it was; a successful one attaches a
  texture with an identity and changes nothing else.\<close>

lemma uploadTexture_result:
  "snd (snd (uploadTexture E b mapped)) =
     (if fst (snd (uploadTexture E b mapped))
      then b\<lparr>m_texture := Some
               \<lparr>m_texID = glGenTextures E, m_size = (size_x (m_attrs b), size_y (m_attrs b)),
                m_target = GL_TEXTURE_2D, m_isSynchronous = True,
                m_type = textureTypeOf (format (m_attrs b)), m_eglImage = None\<rparr>\<rparr>
      else b)
   \<and> (fst (snd (uploadTexture E b mapped)) \<longrightarrow> glGenTextures E \<noteq> 0)"
  by (simp add: uploadTexture_def Let_def split: sum.splits prod.splits)

lemma createCrossGPUTexture_result:
  "snd (snd (createCrossGPUTexture E b)) =
     (if fst (snd (createCrossGPUTexture E b))
      then b\<lparr>m_texture := Some
               \<lparr>m_texID = glGenTextures E, m_size = (size_x (m_attrs b), size_y (m_attrs b)),
                m_target = GL_TEXTURE_2D, m_isSynchronous = True,
                m_type = textureTypeOf (format (m_attrs b)), m_eglImage = None\<rparr>\<rparr>
      else b)
   \<and> (fst (snd (createCrossGPUTexture E b)) \<longrightarrow> glGenTextures E \<noteq> 0)"
proof -
  have shape: "snd (createCrossGPUTexture E b) =
     (if \<not> is_linux E \<or> planes (m_attrs b) \<noteq> 1 \<or> bufferSize (m_attrs b) = 0 then (False, b)
      else case snd (mapBuffer E (m_attrs b)) of
             None \<Rightarrow> (False, b)
           | Some mapped \<Rightarrow> snd (uploadTexture E b mapped))"
    by (simp add: createCrossGPUTexture_def Let_def split: prod.splits option.splits)
  show ?thesis
  proof (cases "snd (mapBuffer E (m_attrs b))")
    case None
    then show ?thesis by (simp add: shape)
  next
    case (Some mapped)
    then show ?thesis using uploadTexture_result[of E b mapped] by (simp add: shape)
  qed
qed

text \<open>The EGL import asks for an image once, and a second time, with the implicit
  modifier, exactly when the first answer is no image.\<close>

lemma importEGLImage_requests:
  "egl_requests (fst (importEGLImage E b)) =
     (m_attrs b, createEGLImage E 0 (m_attrs b)) #
     (if createEGLImage E 0 (m_attrs b) = None
      then [((m_attrs b)\<lparr>modifier := DRM_FORMAT_MOD_INVALID\<rparr>,
             createEGLImage E 1 ((m_attrs b)\<lparr>modifier := DRM_FORMAT_MOD_INVALID\<rparr>))]
      else [])"
  by (simp add: importEGLImage_def finishImport_def Let_def trace_reading split: option.splits)

lemma importEGLImage_strategies:
  "strategies (fst (importEGLImage E b)) =
     ZeroCopy # (if createEGLImage E 0 (m_attrs b) = None then [ZeroCopy] else [])"
  by (simp add: importEGLImage_def finishImport_def Let_def trace_reading split: option.splits)

lemma importEGLImage_result:
  "snd (importEGLImage E b) =
     (case createEGLImage E 0 (m_attrs b) of
        Some img \<Rightarrow>
          b\<lparr>m_texture := Some (newTexture E (m_attrs b) img),
            m_opaque := isFormatOpaque E (format (m_attrs b)),
            m_success := (m_texID (newTexture E (m_attrs b) img) \<noteq> 0)\<rparr>
      | None \<Rightarrow>
          (case createEGLImage E 1 ((m_attrs b)\<lparr>modifier := DRM_FORMAT_MOD_INVALID\<rparr>) of
             Some img \<Rightarrow>
               b\<lparr>m_attrs := (m_attrs b)\<lparr>modifier := DRM_FORMAT_MOD_INVALID\<rparr>,
                 m_texture := Some (newTexture E ((m_attrs b)\<lparr>modifier := DRM_FORMAT_MOD_INVALID\<rparr>) img),
                 m_opaque := isFormatOpaque E (format (m_attrs b)),
                 m_success :=
                   (m_texID (newTexture E ((m_attrs b)\<lparr>modifier := DRM_FORMAT_MOD_INVALID\<rparr>) img) \<noteq> 0)\<rparr>
           | None \<Rightarrow> b\<lparr>m_attrs := (m_attrs b)\<lparr>modifier := DRM_FORMAT_MOD_INVALID\<rparr>\<rparr>))"
  by (simp add: importEGLImage_def finishImport_def Let_def split: option.splits)

text \<open>The constructor, read as: which strategies it runs, and on which object.\<close>

lemma CDMABuffer_new_cases:
  "CDMABuffer_new E opaque0 a =
     (let b = initial_buffer opaque0 a;
          pre = [MakeEGLCurrent, ListenDestroy, CreateResource]
      in if crossGPU a \<and> secondaryDrmRenderNode_available E \<and> allowCPUFallback E then
           (let pre1 = pre @ [DebugLog LOG
                  ''CDMABuffer: Cross-GPU buffer detected, using CPU copy fallback (opt-in)''];
                tr = fst (createCrossGPUTexture E b)
            in if fst (snd (createCrossGPUTexture E b)) then
                 (pre1 @ tr @ [DebugLog LOG
                    ''CDMABuffer: Cross-GPU texture created successfully via CPU copy''],
                  (snd (snd (createCrossGPUTexture E b)))
                    \<lparr>m_opaque := isFormatOpaque E (format a), m_success := True\<rparr>)
               else
                 (pre1 @ tr
                    @ [DebugLog ERR ''CDMABuffer: Cross-GPU fallback failed, trying EGLImage anyway'']
                    @ fst (importEGLImage E b),
                  snd (importEGLImage E b)))
         else
           (pre @ (if crossGPU a \<and> secondaryDrmRenderNode_available E \<and> \<not> allowCPUFallback E
                   then [DebugLog LOG
                     ''CDMABuffer: Cross-GPU buffer detected, CPU fallback disabled; trying EGL import'']
                   else [])
                @ fst (importEGLImage E b),
            snd (importEGLImage E b)))"
proof (cases "fst (snd (createCrossGPUTexture E (initial_buffer opaque0 a)))")
  case True
  with createCrossGPUTexture_result[of E "initial_buffer opaque0 a"]
  show ?thesis
    by (auto simp: CDMABuffer_new_def Let_def
          initial_buffer_def split: prod.splits bool.splits)
next
  case False
  with createCrossGPUTexture_result[of E "initial_buffer opaque0 a"]
  show ?thesis
    by (auto simp: CDMABuffer_new_def Let_def
          split: prod.splits bool.splits)
qed


lemma CDMABuffer_new_strategies:
  "strategies (fst (CDMABuffer_new E opaque0 a)) =
     (if crossGPU a \<and> secondaryDrmRenderNode_available E \<and> allowCPUFallback E then
        Materializer #
          (if fst (snd (createCrossGPUTexture E (initial_buffer opaque0 a))) then []
           else ZeroCopy # (if createEGLImage E 0 a = None then [ZeroCopy] else []))
      else ZeroCopy # (if createEGLImage E 0 a = None then [ZeroCopy] else []))"
  by (simp add: CDMABuffer_new_cases Let_def trace_reading createCrossGPUTexture_strategies
        importEGLImage_strategies)
     (simp add: initial_buffer_def)

lemma CDMABuffer_new_requests:
  "egl_requests (fst (CDMABuffer_new E opaque0 a)) =
     (if crossGPU a \<and> secondaryDrmRenderNode_available E \<and> allowCPUFallback E
         \<and> fst (snd (createCrossGPUTexture E (initial_buffer opaque0 a)))
      then []
      else egl_requests (fst (importEGLImage E (initial_buffer opaque0 a))))"
  by (simp add: CDMABuffer_new_cases Let_def trace_reading createCrossGPUTexture_strategies)

text \<open>
  C2. The constructor attempts the cross-device materializer exactly when the descriptor
  is cross-GPU, the secondary render node is available, the fallback is enabled and it is
  not disabled; the materializer is then the first strategy of the trace. In every other
  combination the trace holds attempts of the zero-copy importer only, and at least one.
  When the materializer is attempted and fails, the zero-copy importer is attempted right
  after it; when it succeeds, it is the only strategy.
\<close>

theorem orchestrator_order:
  "(Materializer \<in> set (strategies (fst (CDMABuffer_new E opaque0 a)))) =
     (crossGPU a \<and> secondaryDrmRenderNode_available E
      \<and> HYPRLAND_DMABUF_ENABLE_CPU_FALLBACK E \<and> \<not> HYPRLAND_DMABUF_DISABLE_CPU_FALLBACK E)
   \<and> (crossGPU a \<and> secondaryDrmRenderNode_available E
      \<and> HYPRLAND_DMABUF_ENABLE_CPU_FALLBACK E \<and> \<not> HYPRLAND_DMABUF_DISABLE_CPU_FALLBACK E \<longrightarrow>
        hd (strategies (fst (CDMABuffer_new E opaque0 a))) = Materializer
        \<and> Materializer \<notin> set (tl (strategies (fst (CDMABuffer_new E opaque0 a))))
        \<and> (if fst (snd (createCrossGPUTexture E (initial_buffer opaque0 a)))
            then strategies (fst (CDMABuffer_new E opaque0 a)) = [Materializer]
            else hd (tl (strategies (fst (CDMABuffer_new E opaque0 a)))) = ZeroCopy
                 \<and> ZeroCopy \<in> set (tl (strategies (fst (CDMABuffer_new E opaque0 a))))))
   \<and> (\<not> (crossGPU a \<and> secondaryDrmRenderNode_available E
      \<and> HYPRLAND_DMABUF_ENABLE_CPU_FALLBACK E \<and> \<not> HYPRLAND_DMABUF_DISABLE_CPU_FALLBACK E) \<longrightarrow>
        set (strategies (fst (CDMABuffer_new E opaque0 a))) = {ZeroCopy})"
  by (auto simp: CDMABuffer_new_strategies allowCPUFallback_def)

theorem orchestrator_order_witness:
  "crossGPU attrs_bgr \<and> secondaryDrmRenderNode_available E0
   \<and> HYPRLAND_DMABUF_ENABLE_CPU_FALLBACK E0 \<and> \<not> HYPRLAND_DMABUF_DISABLE_CPU_FALLBACK E0
   \<and> \<not> fst (snd (createCrossGPUTexture E0 (initial_buffer False attrs_bgr)))
   \<and> strategies (fst (CDMABuffer_new E0 False attrs_bgr)) = [Materializer, ZeroCopy, ZeroCopy]
   \<and> fst (snd (createCrossGPUTexture E0 (initial_buffer False attrs_x)))
   \<and> strategies (fst (CDMABuffer_new E0 False attrs_x)) = [Materializer]
   \<and> \<not> HYPRLAND_DMABUF_ENABLE_CPU_FALLBACK E_nofallback
   \<and> strategies (fst (CDMABuffer_new E_nofallback False attrs_x)) = [ZeroCopy, ZeroCopy]"
proof -
  have bgr: "createCrossGPUTexture E0 (initial_buffer False attrs_bgr) =
      ([Call_createCrossGPUTexture, Mmap 8192 7 0 None,
        DebugLog ERR ''Cross-GPU: Failed to mmap dmabuf fd, trying DRM handle path'',
        DrmPrimeFDToHandle 9 7 (Some 3), DrmIoctlMapDumb 9 3 (Some 65536),
        Mmap 8192 9 65536 (Some 4096), DrmCloseBufferHandle 9 3,
        DebugLog ERR ''Cross-GPU: BGR888 format not supported in GLES'',
        Munmap 4096 8192], False, initial_buffer False attrs_bgr)"
    by (simp add: createCrossGPUTexture_def mapBuffer_def uploadTexture_def bufferSize_def
          glFormatOf_def initial_buffer_def attrs_bgr_def attrs_x_def E0_def Let_def
          DRM_FORMAT_XRGB8888_def DRM_FORMAT_ARGB8888_def DRM_FORMAT_BGR888_def
          DRM_FORMAT_ABGR8888_def DRM_FORMAT_XBGR8888_def DRM_FORMAT_RGB888_def)
  have x: "fst (snd (createCrossGPUTexture E0 (initial_buffer False attrs_x)))"
    by (simp add: createCrossGPUTexture_def mapBuffer_def uploadTexture_def bufferSize_def
          glFormatOf_def initial_buffer_def attrs_x_def E0_def Let_def
          DRM_FORMAT_XRGB8888_def DRM_FORMAT_ARGB8888_def)
  have s1: "strategies (fst (CDMABuffer_new E0 False attrs_bgr)) = [Materializer, ZeroCopy, ZeroCopy]"
    by (simp add: CDMABuffer_new_strategies bgr allowCPUFallback_def)
       (simp add: E0_def attrs_bgr_def attrs_x_def DRM_FORMAT_MOD_INVALID_def)
  have s2: "strategies (fst (CDMABuffer_new E0 False attrs_x)) = [Materializer]"
    by (simp add: CDMABuffer_new_strategies x allowCPUFallback_def)
       (simp add: E0_def attrs_x_def)
  have s3: "strategies (fst (CDMABuffer_new E_nofallback False attrs_x)) = [ZeroCopy, ZeroCopy]"
    by (simp add: CDMABuffer_new_strategies allowCPUFallback_def)
       (simp add: E_nofallback_def E0_def attrs_x_def DRM_FORMAT_MOD_INVALID_def)
  show ?thesis
    using orchestrator_order[of E0 False attrs_bgr] orchestrator_order[of E0 False attrs_x]
      orchestrator_order[of E_nofallback False attrs_x]
    by (simp add: s1 s2 s3 bgr x) (simp add: E0_def E_nofallback_def attrs_bgr_def attrs_x_def)
qed

text \<open>
  C3. A zero-copy import asks for an EGL image at most twice. When the first request
  fails, there is exactly one more request, made with the modifier replaced by
  \<^verbatim>\<open>DRM_FORMAT_MOD_INVALID\<close> and all other attributes unchanged, and the object keeps
  that modifier. When the second request fails too, the import stops there: no texture is
  attached and the flags are untouched. When the first request succeeds there is no
  second one. The source retries whatever the modifier was, so this holds in particular
  for a non-implicit modifier, the case of the claim. The whole constructor makes at
  most two requests as well.
\<close>

theorem zero_copy_retry_once:
  "length (egl_requests (fst (importEGLImage E b))) \<le> 2
   \<and> length (egl_requests (fst (CDMABuffer_new E opaque0 a))) \<le> 2
   \<and> (createEGLImage E 0 (m_attrs b) = None \<and> modifier (m_attrs b) \<noteq> DRM_FORMAT_MOD_INVALID \<longrightarrow>
        egl_requests (fst (importEGLImage E b)) =
          [(m_attrs b, None),
           ((m_attrs b)\<lparr>modifier := DRM_FORMAT_MOD_INVALID\<rparr>,
            createEGLImage E 1 ((m_attrs b)\<lparr>modifier := DRM_FORMAT_MOD_INVALID\<rparr>))]
        \<and> m_attrs (snd (importEGLImage E b)) = (m_attrs b)\<lparr>modifier := DRM_FORMAT_MOD_INVALID\<rparr>
        \<and> (createEGLImage E 1 ((m_attrs b)\<lparr>modifier := DRM_FORMAT_MOD_INVALID\<rparr>) = None \<longrightarrow>
             snd (importEGLImage E b) = b\<lparr>m_attrs := (m_attrs b)\<lparr>modifier := DRM_FORMAT_MOD_INVALID\<rparr>\<rparr>))
   \<and> (createEGLImage E 0 (m_attrs b) = None \<longrightarrow>
        length (egl_requests (fst (importEGLImage E b))) = 2
        \<and> modifier (fst (egl_requests (fst (importEGLImage E b)) ! 1)) = DRM_FORMAT_MOD_INVALID)
   \<and> (createEGLImage E 0 (m_attrs b) \<noteq> None \<longrightarrow>
        egl_requests (fst (importEGLImage E b)) = [(m_attrs b, createEGLImage E 0 (m_attrs b))])"
proof -
  have ctor: "length (egl_requests (fst (CDMABuffer_new E opaque0 a))) \<le> 2"
    by (simp add: CDMABuffer_new_requests importEGLImage_requests)
  show ?thesis
    using ctor by (auto simp: importEGLImage_requests importEGLImage_result split: option.splits)
qed

theorem zero_copy_retry_once_witness:
  "createEGLImage E0 0 (m_attrs (initial_buffer False attrs_local)) = None
   \<and> modifier (m_attrs (initial_buffer False attrs_local)) \<noteq> DRM_FORMAT_MOD_INVALID
   \<and> egl_requests (fst (importEGLImage E0 (initial_buffer False attrs_local))) =
       [(attrs_local, None), (attrs_local\<lparr>modifier := DRM_FORMAT_MOD_INVALID\<rparr>, Some 1)]
   \<and> m_success (snd (importEGLImage E0 (initial_buffer False attrs_local)))
   \<and> createEGLImage E_noimport 1 (attrs_local\<lparr>modifier := DRM_FORMAT_MOD_INVALID\<rparr>) = None
   \<and> egl_requests (fst (importEGLImage E_noimport (initial_buffer False attrs_local))) =
       [(attrs_local, None), (attrs_local\<lparr>modifier := DRM_FORMAT_MOD_INVALID\<rparr>, None)]
   \<and> snd (importEGLImage E_noimport (initial_buffer False attrs_local)) =
       (initial_buffer False attrs_local)\<lparr>m_attrs := attrs_local\<lparr>modifier := DRM_FORMAT_MOD_INVALID\<rparr>\<rparr>"
proof -
  have f0: "createEGLImage E0 0 (m_attrs (initial_buffer False attrs_local)) = None"
    by (simp add: E0_def initial_buffer_def attrs_local_def attrs_x_def DRM_FORMAT_MOD_INVALID_def)
  have f1: "createEGLImage E_noimport 0 (m_attrs (initial_buffer False attrs_local)) = None"
    by (simp add: E_noimport_def)
  have m: "modifier (m_attrs (initial_buffer False attrs_local)) \<noteq> DRM_FORMAT_MOD_INVALID"
    by (simp add: initial_buffer_def attrs_local_def attrs_x_def DRM_FORMAT_MOD_INVALID_def)
  have a: "m_attrs (initial_buffer False attrs_local) = attrs_local"
    by (simp add: initial_buffer_def)
  have r0: "createEGLImage E0 1 (attrs_local\<lparr>modifier := DRM_FORMAT_MOD_INVALID\<rparr>) = Some 1"
    by (simp add: E0_def)
  have r1: "createEGLImage E_noimport 1 (attrs_local\<lparr>modifier := DRM_FORMAT_MOD_INVALID\<rparr>) = None"
    by (simp add: E_noimport_def)
  have ok: "m_success (snd (importEGLImage E0 (initial_buffer False attrs_local)))"
    using f0 by (simp add: importEGLImage_result a r0) (simp add: E0_def)
  show ?thesis
    using zero_copy_retry_once[of E0 "initial_buffer False attrs_local" False attrs_local]
      zero_copy_retry_once[of E_noimport "initial_buffer False attrs_local" False attrs_local]
      f0 f1 m ok r0 r1
    by (simp add: a)
qed

text \<open>
  C5, as the claim states it, fails where both strategies fail: the constructor returns
  before it writes \<^verbatim>\<open>m_opaque\<close>, which keeps its initial value. With the initial value
  false, a failed import of an XRGB8888 buffer (no alpha) is not marked opaque; with the
  initial value true, a failed import of an ARGB8888 buffer (alpha) is marked opaque.
\<close>

theorem opaque_flag_counterexample:
  "m_texture (snd (CDMABuffer_new E_noimport False attrs_local)) = None
   \<and> \<not> m_success (snd (CDMABuffer_new E_noimport False attrs_local))
   \<and> isFormatOpaque E_noimport (format attrs_local)
   \<and> \<not> m_opaque (snd (CDMABuffer_new E_noimport False attrs_local))
   \<and> m_texture (snd (CDMABuffer_new E_noimport True attrs_argb)) = None
   \<and> \<not> isFormatOpaque E_noimport (format attrs_argb)
   \<and> m_opaque (snd (CDMABuffer_new E_noimport True attrs_argb))"
  by (simp add: CDMABuffer_new_cases importEGLImage_result Let_def)
     (simp add: E_noimport_def E0_def initial_buffer_def attrs_local_def attrs_argb_def
        attrs_x_def DRM_FORMAT_XRGB8888_def DRM_FORMAT_ARGB8888_def DRM_FORMAT_XBGR8888_def
        DRM_FORMAT_RGB888_def DRM_FORMAT_BGR888_def)

text \<open>
  C5, amended. After the constructor, \<^verbatim>\<open>m_success\<close> is true exactly when a texture is
  attached and its identity is not 0, and the format of the descriptor is never changed.
  Both strategies fail when the materializer is not attempted or returns false and both
  requests for an EGL image are answered with no image: then, and only then, no texture
  is attached; \<^verbatim>\<open>m_success\<close> is false and \<^verbatim>\<open>m_opaque\<close> is still its initial value.
  When the materializer succeeds or one of the two requests is answered with an image, a
  texture is attached and \<^verbatim>\<open>m_opaque\<close> is the alpha-less classification of the
  descriptor's format, whichever strategy ran.
\<close>

theorem flags_after_import:
  "m_success (snd (CDMABuffer_new E opaque0 a)) =
     (case m_texture (snd (CDMABuffer_new E opaque0 a)) of
        None \<Rightarrow> False
      | Some t \<Rightarrow> m_texID t \<noteq> 0)
   \<and> format (m_attrs (snd (CDMABuffer_new E opaque0 a))) = format a
   \<and> (m_texture (snd (CDMABuffer_new E opaque0 a)) \<noteq> None \<longrightarrow>
        m_opaque (snd (CDMABuffer_new E opaque0 a)) = isFormatOpaque E (format a))
   \<and> (m_texture (snd (CDMABuffer_new E opaque0 a)) = None \<longrightarrow>
        m_opaque (snd (CDMABuffer_new E opaque0 a)) = opaque0
        \<and> \<not> m_success (snd (CDMABuffer_new E opaque0 a)))
   \<and> (\<not> (crossGPU a \<and> secondaryDrmRenderNode_available E \<and> allowCPUFallback E
           \<and> fst (snd (createCrossGPUTexture E (initial_buffer opaque0 a))))
       \<and> createEGLImage E 0 a = None
       \<and> createEGLImage E 1 (a\<lparr>modifier := DRM_FORMAT_MOD_INVALID\<rparr>) = None \<longrightarrow>
        m_texture (snd (CDMABuffer_new E opaque0 a)) = None
        \<and> \<not> m_success (snd (CDMABuffer_new E opaque0 a))
        \<and> m_opaque (snd (CDMABuffer_new E opaque0 a)) = opaque0)
   \<and> ((crossGPU a \<and> secondaryDrmRenderNode_available E \<and> allowCPUFallback E
           \<and> fst (snd (createCrossGPUTexture E (initial_buffer opaque0 a))))
       \<or> createEGLImage E 0 a \<noteq> None
       \<or> createEGLImage E 1 (a\<lparr>modifier := DRM_FORMAT_MOD_INVALID\<rparr>) \<noteq> None \<longrightarrow>
        m_texture (snd (CDMABuffer_new E opaque0 a)) \<noteq> None
        \<and> m_opaque (snd (CDMABuffer_new E opaque0 a)) = isFormatOpaque E (format a))"
proof -
  let ?b = "initial_buffer opaque0 a"
  let ?a' = "a\<lparr>modifier := DRM_FORMAT_MOD_INVALID\<rparr>"
  have init: "m_attrs ?b = a" "m_texture ?b = None" "m_opaque ?b = opaque0" "\<not> m_success ?b"
    by (simp_all add: initial_buffer_def)
  have egl: "m_success (snd (importEGLImage E ?b)) =
       (case m_texture (snd (importEGLImage E ?b)) of None \<Rightarrow> False | Some t \<Rightarrow> m_texID t \<noteq> 0)
     \<and> format (m_attrs (snd (importEGLImage E ?b))) = format a
     \<and> (m_texture (snd (importEGLImage E ?b)) \<noteq> None \<longrightarrow>
          m_opaque (snd (importEGLImage E ?b)) = isFormatOpaque E (format a))
     \<and> (m_texture (snd (importEGLImage E ?b)) = None \<longrightarrow>
          m_opaque (snd (importEGLImage E ?b)) = opaque0 \<and> \<not> m_success (snd (importEGLImage E ?b)))
     \<and> (m_texture (snd (importEGLImage E ?b)) = None) =
          (createEGLImage E 0 a = None \<and> createEGLImage E 1 ?a' = None)"
    using init by (simp add: importEGLImage_result split: option.splits)
  show ?thesis
  proof (cases "crossGPU a \<and> secondaryDrmRenderNode_available E \<and> allowCPUFallback E
                \<and> fst (snd (createCrossGPUTexture E ?b))")
    case True
    then show ?thesis
      using createCrossGPUTexture_result[of E ?b] init
      by (simp add: CDMABuffer_new_cases Let_def)
  next
    case False
    then have "snd (CDMABuffer_new E opaque0 a) = snd (importEGLImage E ?b)"
      by (auto simp: CDMABuffer_new_cases Let_def)
    then show ?thesis using egl False by auto
  qed
qed

lemma createCrossGPUTexture_bgr:
  "\<not> fst (snd (createCrossGPUTexture E_noimport (initial_buffer False attrs_bgr)))"
  by (simp add: createCrossGPUTexture_def mapBuffer_def uploadTexture_def bufferSize_def
        glFormatOf_def initial_buffer_def attrs_bgr_def attrs_x_def E_noimport_def E0_def Let_def
        DRM_FORMAT_XRGB8888_def DRM_FORMAT_ARGB8888_def DRM_FORMAT_BGR888_def
        DRM_FORMAT_ABGR8888_def DRM_FORMAT_XBGR8888_def DRM_FORMAT_RGB888_def)

theorem flags_after_import_witness:
  "createEGLImage E0 0 attrs_local = None
   \<and> createEGLImage E0 1 (attrs_local\<lparr>modifier := DRM_FORMAT_MOD_INVALID\<rparr>) \<noteq> None
   \<and> m_texture (snd (CDMABuffer_new E0 False attrs_local)) \<noteq> None
   \<and> m_opaque (snd (CDMABuffer_new E0 False attrs_local))
   \<and> isFormatOpaque E0 (format attrs_local)
   \<and> m_success (snd (CDMABuffer_new E0 False attrs_local))
   \<and> \<not> crossGPU attrs_local
   \<and> createEGLImage E_noimport 0 attrs_local = None
   \<and> createEGLImage E_noimport 1 (attrs_local\<lparr>modifier := DRM_FORMAT_MOD_INVALID\<rparr>) = None
   \<and> m_texture (snd (CDMABuffer_new E_noimport False attrs_local)) = None
   \<and> \<not> m_opaque (snd (CDMABuffer_new E_noimport False attrs_local))
   \<and> \<not> m_success (snd (CDMABuffer_new E_noimport False attrs_local))
   \<and> crossGPU attrs_bgr \<and> secondaryDrmRenderNode_available E_noimport \<and> allowCPUFallback E_noimport
   \<and> \<not> fst (snd (createCrossGPUTexture E_noimport (initial_buffer False attrs_bgr)))
   \<and> createEGLImage E_noimport 0 attrs_bgr = None
   \<and> createEGLImage E_noimport 1 (attrs_bgr\<lparr>modifier := DRM_FORMAT_MOD_INVALID\<rparr>) = None
   \<and> m_texture (snd (CDMABuffer_new E_noimport False attrs_bgr)) = None
   \<and> \<not> m_opaque (snd (CDMABuffer_new E_noimport False attrs_bgr))
   \<and> \<not> m_success (snd (CDMABuffer_new E_noimport False attrs_bgr))"
proof -
  have q0: "createEGLImage E0 0 attrs_local = None"
    by (simp add: E0_def attrs_local_def attrs_x_def DRM_FORMAT_MOD_INVALID_def)
  have q1: "createEGLImage E0 1 (attrs_local\<lparr>modifier := DRM_FORMAT_MOD_INVALID\<rparr>) \<noteq> None"
    by (simp add: E0_def)
  have n: "createEGLImage E_noimport 0 attrs_local = None"
    "createEGLImage E_noimport 1 (attrs_local\<lparr>modifier := DRM_FORMAT_MOD_INVALID\<rparr>) = None"
    "createEGLImage E_noimport 0 attrs_bgr = None"
    "createEGLImage E_noimport 1 (attrs_bgr\<lparr>modifier := DRM_FORMAT_MOD_INVALID\<rparr>) = None"
    by (simp_all add: E_noimport_def)
  have c: "\<not> crossGPU attrs_local" "crossGPU attrs_bgr"
    "secondaryDrmRenderNode_available E_noimport" "allowCPUFallback E_noimport"
    by (simp_all add: attrs_local_def attrs_bgr_def attrs_x_def E_noimport_def E0_def
          allowCPUFallback_def)
  have s1: "m_success (snd (CDMABuffer_new E0 False attrs_local))"
    by (simp add: CDMABuffer_new_cases importEGLImage_result Let_def)
       (simp add: E0_def initial_buffer_def attrs_local_def attrs_x_def)
  have o: "isFormatOpaque E0 (format attrs_local)"
    by (simp add: E0_def attrs_local_def attrs_x_def)
  show ?thesis
    using flags_after_import[of E0 False attrs_local]
      flags_after_import[of E_noimport False attrs_local]
      flags_after_import[of E_noimport False attrs_bgr]
      q0 q1 n c s1 o createCrossGPUTexture_bgr
    by simp
qed


section \<open>Properties of the fence export\<close>

text \<open>An answer that is not a transient error ends \<^verbatim>\<open>doIoctl\<close> after one system call.\<close>

lemma doIoctl_final:
  "\<not> (rv (answer n req) = -1 \<and> (errno (answer n req) = EINTR \<or> errno (answer n req) = EAGAIN)) \<Longrightarrow>
   doIoctl answer req n tr = Some (answer n req, Suc n, tr @ [Ioctl req (answer n req)])"
  by (subst doIoctl.simps) (auto simp: Let_def)

lemma doIoctl_again:
  "rv (answer n req) = -1 \<and> (errno (answer n req) = EINTR \<or> errno (answer n req) = EAGAIN) \<Longrightarrow>
   doIoctl answer req n tr = doIoctl answer req (Suc n) (tr @ [Ioctl req (answer n req)])"
  by (subst doIoctl.simps) (simp add: Let_def)

text \<open>
  A slot gives no fence when it holds \<open>-1\<close>, when the readability probe is made and
  succeeds, or when the kernel refuses the export with an error that is not transient.
  When every slot is of that kind the first loop returns, with the fences it started
  with.
\<close>

lemma export_fences_none:
  "(\<forall>k < length slots.
      slots ! k = -1
      \<or> (renderer_present E \<and> \<not> isIntel E \<and> isReadable E (i + k) (slots ! k))
      \<or> (\<forall>m. rv (ioctl E m (DMA_BUF_IOCTL_EXPORT_SYNC_FILE (slots ! k))) \<noteq> 0
              \<and> \<not> (rv (ioctl E m (DMA_BUF_IOCTL_EXPORT_SYNC_FILE (slots ! k))) = -1
                    \<and> (errno (ioctl E m (DMA_BUF_IOCTL_EXPORT_SYNC_FILE (slots ! k))) = EINTR
                        \<or> errno (ioctl E m (DMA_BUF_IOCTL_EXPORT_SYNC_FILE (slots ! k))) = EAGAIN)))) \<Longrightarrow>
   \<exists>n' tr'. export_fences E i slots syncFds n tr = Some (syncFds, n', tr')"
proof (induction slots arbitrary: i n tr)
  case Nil
  then show ?case by simp
next
  case (Cons fd rest)
  have rest: "\<exists>n' tr'. export_fences E (Suc i) rest syncFds n0 tr0 = Some (syncFds, n', tr')"
    for n0 tr0
  proof (rule Cons.IH)
    show "\<forall>k < length rest.
      rest ! k = -1
      \<or> (renderer_present E \<and> \<not> isIntel E \<and> isReadable E (Suc i + k) (rest ! k))
      \<or> (\<forall>m. rv (ioctl E m (DMA_BUF_IOCTL_EXPORT_SYNC_FILE (rest ! k))) \<noteq> 0
              \<and> \<not> (rv (ioctl E m (DMA_BUF_IOCTL_EXPORT_SYNC_FILE (rest ! k))) = -1
                    \<and> (errno (ioctl E m (DMA_BUF_IOCTL_EXPORT_SYNC_FILE (rest ! k))) = EINTR
                        \<or> errno (ioctl E m (DMA_BUF_IOCTL_EXPORT_SYNC_FILE (rest ! k))) = EAGAIN)))"
    proof (intro allI impI)
      fix k assume "k < length rest"
      then have "Suc k < length (fd # rest)" by simp
      from Cons.prems[rule_format, OF this] show
        "rest ! k = -1
         \<or> (renderer_present E \<and> \<not> isIntel E \<and> isReadable E (Suc i + k) (rest ! k))
         \<or> (\<forall>m. rv (ioctl E m (DMA_BUF_IOCTL_EXPORT_SYNC_FILE (rest ! k))) \<noteq> 0
              \<and> \<not> (rv (ioctl E m (DMA_BUF_IOCTL_EXPORT_SYNC_FILE (rest ! k))) = -1
                    \<and> (errno (ioctl E m (DMA_BUF_IOCTL_EXPORT_SYNC_FILE (rest ! k))) = EINTR
                        \<or> errno (ioctl E m (DMA_BUF_IOCTL_EXPORT_SYNC_FILE (rest ! k))) = EAGAIN)))"
        by simp
    qed
  qed
  have head: "fd = -1
      \<or> (renderer_present E \<and> \<not> isIntel E \<and> isReadable E i fd)
      \<or> (\<forall>m. rv (ioctl E m (DMA_BUF_IOCTL_EXPORT_SYNC_FILE fd)) \<noteq> 0
              \<and> \<not> (rv (ioctl E m (DMA_BUF_IOCTL_EXPORT_SYNC_FILE fd)) = -1
                    \<and> (errno (ioctl E m (DMA_BUF_IOCTL_EXPORT_SYNC_FILE fd)) = EINTR
                        \<or> errno (ioctl E m (DMA_BUF_IOCTL_EXPORT_SYNC_FILE fd)) = EAGAIN)))"
    using Cons.prems[rule_format, of 0] by simp
  show ?case
  proof (cases "fd = -1 \<or> (renderer_present E \<and> \<not> isIntel E \<and> isReadable E i fd)")
    case True
    then show ?thesis using rest by auto
  next
    case False
    with head have refused: "rv (ioctl E n (DMA_BUF_IOCTL_EXPORT_SYNC_FILE fd)) \<noteq> 0"
      and final: "\<not> (rv (ioctl E n (DMA_BUF_IOCTL_EXPORT_SYNC_FILE fd)) = -1
                    \<and> (errno (ioctl E n (DMA_BUF_IOCTL_EXPORT_SYNC_FILE fd)) = EINTR
                        \<or> errno (ioctl E n (DMA_BUF_IOCTL_EXPORT_SYNC_FILE fd)) = EAGAIN))"
      by blast+
    show ?thesis
      using False refused final rest by (simp add: doIoctl_final Let_def)
  qed
qed

text \<open>When every slot holds \<open>-1\<close>, the first loop makes no call at all.\<close>

lemma export_fences_closed:
  "\<forall>fd \<in> set slots. fd = -1 \<Longrightarrow> export_fences E i slots syncFds n tr = Some (syncFds, n, tr)"
  by (induction slots arbitrary: i) simp_all

text \<open>
  C9. On a buffer that is not good, \<^verbatim>\<open>exportSyncFile\<close> returns the empty fence with an
  empty trace: no kernel call is made; the same on a platform other than Linux. On a good
  buffer the result is the empty fence
  again whenever the first loop ends with no fence collected; that is the case when every
  descriptor slot holds \<open>-1\<close> (then without any call), and when every slot holds \<open>-1\<close>, is
  skipped as readable, or has its export refused by the kernel.
\<close>

theorem exportSyncFile_empty:
  "(\<not> good b \<longrightarrow> exportSyncFile E b = Some (-1, []))
   \<and> (\<not> is_linux E \<longrightarrow> exportSyncFile E b = Some (-1, []))
   \<and> (good b \<and> is_linux E \<longrightarrow>
        (\<forall>n tr. export_fences E 0 (fds (m_attrs b)) [] 0 [] = Some ([], n, tr) \<longrightarrow>
                 exportSyncFile E b = Some (-1, tr)))
   \<and> (good b \<and> (\<forall>fd \<in> set (fds (m_attrs b)). fd = -1) \<longrightarrow> exportSyncFile E b = Some (-1, []))
   \<and> (good b \<and>
       (\<forall>k < length (fds (m_attrs b)).
          fds (m_attrs b) ! k = -1
          \<or> (renderer_present E \<and> \<not> isIntel E \<and> isReadable E k (fds (m_attrs b) ! k))
          \<or> (\<forall>m. rv (ioctl E m (DMA_BUF_IOCTL_EXPORT_SYNC_FILE (fds (m_attrs b) ! k))) \<noteq> 0
                \<and> \<not> (rv (ioctl E m (DMA_BUF_IOCTL_EXPORT_SYNC_FILE (fds (m_attrs b) ! k))) = -1
                      \<and> (errno (ioctl E m (DMA_BUF_IOCTL_EXPORT_SYNC_FILE (fds (m_attrs b) ! k))) = EINTR
                          \<or> errno (ioctl E m (DMA_BUF_IOCTL_EXPORT_SYNC_FILE (fds (m_attrs b) ! k))) = EAGAIN))))
       \<longrightarrow> (\<exists>tr. exportSyncFile E b = Some (-1, tr)))"
proof -
  have bad: "exportSyncFile E b = Some (-1, [])" if "\<not> good b"
    using that by (simp add: exportSyncFile_def)
  have other: "exportSyncFile E b = Some (-1, [])" if "\<not> is_linux E"
    using that by (simp add: exportSyncFile_def)
  have none: "exportSyncFile E b = Some (-1, tr)"
    if "good b" "is_linux E" "export_fences E 0 (fds (m_attrs b)) [] 0 [] = Some ([], n, tr)"
    for n tr
    using that by (simp add: exportSyncFile_def)
  have closed: "exportSyncFile E b = Some (-1, [])"
    if "good b" "\<forall>fd \<in> set (fds (m_attrs b)). fd = -1"
    using that by (simp add: exportSyncFile_def export_fences_closed)
  have skipped: "\<exists>tr. exportSyncFile E b = Some (-1, tr)"
    if g: "good b" and
      all: "\<forall>k < length (fds (m_attrs b)).
          fds (m_attrs b) ! k = -1
          \<or> (renderer_present E \<and> \<not> isIntel E \<and> isReadable E k (fds (m_attrs b) ! k))
          \<or> (\<forall>m. rv (ioctl E m (DMA_BUF_IOCTL_EXPORT_SYNC_FILE (fds (m_attrs b) ! k))) \<noteq> 0
                \<and> \<not> (rv (ioctl E m (DMA_BUF_IOCTL_EXPORT_SYNC_FILE (fds (m_attrs b) ! k))) = -1
                      \<and> (errno (ioctl E m (DMA_BUF_IOCTL_EXPORT_SYNC_FILE (fds (m_attrs b) ! k))) = EINTR
                          \<or> errno (ioctl E m (DMA_BUF_IOCTL_EXPORT_SYNC_FILE (fds (m_attrs b) ! k))) = EAGAIN)))"
  proof -
    from all obtain n' tr' where
      "export_fences E 0 (fds (m_attrs b)) [] 0 [] = Some ([], n', tr')"
      using export_fences_none[of "fds (m_attrs b)" E 0 "[]" 0 "[]"] by auto
    with g show ?thesis by (cases "is_linux E") (simp_all add: exportSyncFile_def)
  qed
  show ?thesis using bad other none closed skipped by blast
qed

lemma exportSyncFile_badf:
  "exportSyncFile E_badf b3 =
     Some (-1, [Ioctl (DMA_BUF_IOCTL_EXPORT_SYNC_FILE 10) \<lparr>rv = -1, errno = 9, out_fd = -1\<rparr>,
                Ioctl (DMA_BUF_IOCTL_EXPORT_SYNC_FILE 11) \<lparr>rv = -1, errno = 9, out_fd = -1\<rparr>,
                Ioctl (DMA_BUF_IOCTL_EXPORT_SYNC_FILE 12) \<lparr>rv = -1, errno = 9, out_fd = -1\<rparr>])"
  by (simp add: exportSyncFile_def good_def b3_def E_badf_def E0_def doIoctl_final
        EINTR_def EAGAIN_def)

lemma exportSyncFile_readable:
  "exportSyncFile E_readable b3 =
     Some (-1, [IsReadable 10 True, IsReadable 11 True, IsReadable 12 True])"
  by (simp add: exportSyncFile_def good_def b3_def E_readable_def E0_def)

theorem exportSyncFile_empty_witness:
  "\<not> good b0 \<and> exportSyncFile E0 b0 = Some (-1, [])
   \<and> good b3_closed \<and> set (fds (m_attrs b3_closed)) = {-1}
   \<and> exportSyncFile E0 b3_closed = Some (-1, [])
   \<and> good b3 \<and> is_linux E_badf
   \<and> export_fences E_badf 0 (fds (m_attrs b3)) [] 0 [] =
       Some ([], 3, [Ioctl (DMA_BUF_IOCTL_EXPORT_SYNC_FILE 10) \<lparr>rv = -1, errno = 9, out_fd = -1\<rparr>,
                     Ioctl (DMA_BUF_IOCTL_EXPORT_SYNC_FILE 11) \<lparr>rv = -1, errno = 9, out_fd = -1\<rparr>,
                     Ioctl (DMA_BUF_IOCTL_EXPORT_SYNC_FILE 12) \<lparr>rv = -1, errno = 9, out_fd = -1\<rparr>])
   \<and> exportSyncFile E_badf b3 =
       Some (-1, [Ioctl (DMA_BUF_IOCTL_EXPORT_SYNC_FILE 10) \<lparr>rv = -1, errno = 9, out_fd = -1\<rparr>,
                  Ioctl (DMA_BUF_IOCTL_EXPORT_SYNC_FILE 11) \<lparr>rv = -1, errno = 9, out_fd = -1\<rparr>,
                  Ioctl (DMA_BUF_IOCTL_EXPORT_SYNC_FILE 12) \<lparr>rv = -1, errno = 9, out_fd = -1\<rparr>])
   \<and> exportSyncFile E_readable b3 =
       Some (-1, [IsReadable 10 True, IsReadable 11 True, IsReadable 12 True])"
proof -
  have g0: "\<not> good b0" by (simp add: good_def b0_def)
  have g3: "good b3" "good b3_closed" by (simp_all add: good_def b3_def b3_closed_def)
  have cl: "set (fds (m_attrs b3_closed)) = {-1}" by (simp add: b3_closed_def)
  have lx: "is_linux E_badf" by (simp add: E_badf_def E0_def)
  have ex: "export_fences E_badf 0 (fds (m_attrs b3)) [] 0 [] =
       Some ([], 3, [Ioctl (DMA_BUF_IOCTL_EXPORT_SYNC_FILE 10) \<lparr>rv = -1, errno = 9, out_fd = -1\<rparr>,
                     Ioctl (DMA_BUF_IOCTL_EXPORT_SYNC_FILE 11) \<lparr>rv = -1, errno = 9, out_fd = -1\<rparr>,
                     Ioctl (DMA_BUF_IOCTL_EXPORT_SYNC_FILE 12) \<lparr>rv = -1, errno = 9, out_fd = -1\<rparr>])"
    by (simp add: b3_def E_badf_def E0_def doIoctl_final EINTR_def EAGAIN_def)
  show ?thesis
    using exportSyncFile_empty[of b0 E0] exportSyncFile_empty[of b3_closed E0]
      exportSyncFile_empty[of b3 E_badf] g0 g3 cl lx ex
    by (simp add: exportSyncFile_readable)
qed

text \<open>
  C1 does not hold of the code. On the good buffer \<open>b3\<close> three fences are exported (110,
  111, 112); the merge of 110 with 111 fails and empties the accumulator; the loop goes on,
  finds the accumulator empty and moves the third fence into it. The function returns
  fence 112, built from one of the three planes, where the claim has the empty fence.
\<close>

theorem merge_failure_returns_partial_fence:
  "good b3
   \<and> exportSyncFile E0 b3 =
       Some (112, [Ioctl (DMA_BUF_IOCTL_EXPORT_SYNC_FILE 10) \<lparr>rv = 0, errno = 0, out_fd = 110\<rparr>,
                   Ioctl (DMA_BUF_IOCTL_EXPORT_SYNC_FILE 11) \<lparr>rv = 0, errno = 0, out_fd = 111\<rparr>,
                   Ioctl (DMA_BUF_IOCTL_EXPORT_SYNC_FILE 12) \<lparr>rv = 0, errno = 0, out_fd = 112\<rparr>,
                   Ioctl (SYNC_IOC_MERGE 110 111 ''merged release fence'')
                     \<lparr>rv = -1, errno = 12, out_fd = -1\<rparr>])
   \<and> exportSyncFile E0 b3 \<noteq> None
   \<and> fst (the (exportSyncFile E0 b3)) \<noteq> -1"
proof -
  have run: "exportSyncFile E0 b3 =
       Some (112, [Ioctl (DMA_BUF_IOCTL_EXPORT_SYNC_FILE 10) \<lparr>rv = 0, errno = 0, out_fd = 110\<rparr>,
                   Ioctl (DMA_BUF_IOCTL_EXPORT_SYNC_FILE 11) \<lparr>rv = 0, errno = 0, out_fd = 111\<rparr>,
                   Ioctl (DMA_BUF_IOCTL_EXPORT_SYNC_FILE 12) \<lparr>rv = 0, errno = 0, out_fd = 112\<rparr>,
                   Ioctl (SYNC_IOC_MERGE 110 111 ''merged release fence'')
                     \<lparr>rv = -1, errno = 12, out_fd = -1\<rparr>])"
    by (simp add: exportSyncFile_def good_def b3_def E0_def doIoctl_final EINTR_def EAGAIN_def)
  show ?thesis by (simp add: run) (simp add: good_def b3_def)
qed


end
